theory Spec2Isabelle
  imports Complex_Main
begin

section \<open>The capture page: \<^verbatim>\<open>src/src/App.jsx\<close>, the hardened component\<close>

text \<open>
  The source file holds two versions of the component \<^verbatim>\<open>App\<close>. The development
  below embeds the second one (lines 103 to 326), the one with timeouts, location
  fallback and retries.

  JavaScript strings are modelled as \<^typ>\<open>string\<close>; a character outside ASCII is
  written as its UTF-8 bytes. Times are milliseconds, as natural numbers.
\<close>

subsection \<open>JavaScript values\<close>

text \<open>
  The values that the component builds (object literals) or receives from
  \<^verbatim>\<open>response.json()\<close>. \<open>JUndef\<close> is \<^verbatim>\<open>undefined\<close>. An object is its list of
  own properties, in insertion order; reading a property takes the first entry of that
  name.
\<close>

datatype jv =
    JUndef
  | JNull
  | JBool bool
  | JNum real
  | JStr string
  | JArr "jv list"
  | JObj "(string \<times> jv) list"

text \<open>Truthiness, as \<^verbatim>\<open>||\<close> and \<^verbatim>\<open>if\<close> test it.\<close>

fun truthy :: "jv \<Rightarrow> bool" where
  "truthy JUndef = False"
| "truthy JNull = False"
| "truthy (JBool b) = b"
| "truthy (JNum n) = (n \<noteq> 0)"
| "truthy (JStr s) = (s \<noteq> [])"
| "truthy (JArr xs) = True"
| "truthy (JObj kvs) = True"

text \<open>
  \<^verbatim>\<open>v?.k\<close>: \<^verbatim>\<open>undefined\<close> when \<open>v\<close> is \<^verbatim>\<open>null\<close> or \<^verbatim>\<open>undefined\<close>, the property
  otherwise. The only property read this way is \<^verbatim>\<open>ip\<close>, which no primitive and no
  array has.
\<close>

fun opt_chain :: "jv \<Rightarrow> string \<Rightarrow> jv" where
  "opt_chain (JObj kvs) k = (case map_of kvs k of None \<Rightarrow> JUndef | Some v \<Rightarrow> v)"
| "opt_chain v k = JUndef"

text \<open>\<^verbatim>\<open>a || b\<close>\<close>

definition or_else :: "jv \<Rightarrow> jv \<Rightarrow> jv" where
  "or_else a b = (if truthy a then a else b)"

subsection \<open>Promises, exceptions and timeout races\<close>

text \<open>An \<^verbatim>\<open>Error\<close> is what the handler reads of it: its \<^verbatim>\<open>message\<close>.\<close>

datatype exn = Exn (message: string)

text \<open>
  What awaiting a promise of the environment gives: its value, its rejection, or nothing
  at all when the promise never settles.
\<close>

datatype 'a settled = Fulfilled 'a | Rejected exn | Pending

text \<open>
  \<^verbatim>\<open>Promise.race([op, new Promise((_, reject) => setTimeout(() => reject(new Error(label)), deadline))])\<close>.
  The operation is given with the time at which it settles. The timer callback runs no
  earlier than the deadline, so an operation that settles by the deadline wins; one that
  settles later, or never, loses to the rejection with the label. The race itself always
  settles.
\<close>

definition race_timeout :: "nat \<times> 'a settled \<Rightarrow> nat \<Rightarrow> string \<Rightarrow> exn + 'a" where
  "race_timeout op deadline label =
     (case snd op of
        Pending \<Rightarrow> Inl (Exn label)
      | Rejected x \<Rightarrow> (if fst op \<le> deadline then Inl x else Inl (Exn label))
      | Fulfilled v \<Rightarrow> (if fst op \<le> deadline then Inr v else Inl (Exn label)))"

subsection \<open>The endpoint resolver \<^verbatim>\<open>getApiUrl\<close> (lines 112 to 123)\<close>

text \<open>
  The page's \<^verbatim>\<open>window.location\<close>: \<^verbatim>\<open>port\<close> is the empty string when the page is
  served on the default port of its protocol. \<^verbatim>\<open>getApiUrl\<close> reads \<^verbatim>\<open>protocol\<close> and
  \<^verbatim>\<open>hostname\<close> only.
\<close>

record page_location =
  protocol :: string
  hostname :: string
  port :: string

text \<open>
  The configuration value \<^verbatim>\<open>import.meta.env.VITE_API_URL\<close> is a string or
  \<^verbatim>\<open>undefined\<close> (\<open>None\<close>). The test \<^verbatim>\<open>if (import.meta.env.VITE_API_URL)\<close> is a
  truthiness test: the empty string fails it.
\<close>

definition getApiUrl :: "string option \<Rightarrow> page_location \<Rightarrow> string" where
  "getApiUrl VITE_API_URL loc =
     (let port' = (if hostname loc = ''localhost'' \<or> hostname loc = ''127.0.0.1''
                   then '':5000'' else []);
          derived = protocol loc @ ''//'' @ hostname loc @ port'
      in case VITE_API_URL of
           Some u \<Rightarrow> (if u \<noteq> [] then u else derived)
         | None \<Rightarrow> derived)"

text \<open>
  The page's own origin, \<^verbatim>\<open>window.location.origin\<close>, for the comparison that the
  specification makes: protocol, host name and, when the page is not on the default
  port, the port.
\<close>

definition origin :: "page_location \<Rightarrow> string" where
  "origin loc = protocol loc @ ''//'' @ hostname loc @
     (if port loc = [] then [] else '':'' @ port loc)"

subsection \<open>The location resolver \<^verbatim>\<open>getLocationWithFallback\<close> (lines 238 to 279)\<close>

text \<open>
  The function returns a promise whose executor arms a timer of 10000 ms and starts the
  geolocation query. Three callbacks can run afterwards: the timer's, the query's success
  callback and its error callback. The promise is modelled by its value (\<open>None\<close> while
  it is pending), by whether the timer is still armed, and by the number of calls of
  \<^verbatim>\<open>resolve\<close>.
\<close>

record loc_promise =
  resolved :: "jv option"
  timer_armed :: bool
  resolve_calls :: nat

text \<open>
  \<^verbatim>\<open>resolve(v)\<close>: the first call settles the promise; the language ignores every later
  call.
\<close>

definition resolve :: "jv \<Rightarrow> loc_promise \<Rightarrow> loc_promise" where
  "resolve v p =
     p\<lparr>resolved := (case resolved p of None \<Rightarrow> Some v | Some w \<Rightarrow> Some w),
       resolve_calls := Suc (resolve_calls p)\<rparr>"

definition clearTimeout :: "loc_promise \<Rightarrow> loc_promise" where
  "clearTimeout p = p\<lparr>timer_armed := False\<rparr>"

definition location_timeout :: nat where
  "location_timeout = 10000"

text \<open>The state right after the executor has run (lines 241 to 277).\<close>

definition executor_done :: loc_promise where
  "executor_done = \<lparr>resolved = None, timer_armed = True, resolve_calls = 0\<rparr>"

text \<open>
  What can happen next: the deadline of the timer passes, or the query calls back with a
  position (latitude, longitude, accuracy) or with an error (its message).
\<close>

datatype geo_event =
    DeadlinePasses
  | OnPosition real real real
  | OnPositionError string

text \<open>
  The three callbacks. A timer that was cleared, or that has fired, does not run its
  callback (again).
\<close>

fun geo_step :: "geo_event \<Rightarrow> loc_promise \<Rightarrow> loc_promise" where
  "geo_step DeadlinePasses p =
     (if timer_armed p
      then resolve (JObj [(''latitude'', JNum 0), (''longitude'', JNum 0),
                          (''error'', JStr ''Location timeout - using default'')])
             (p\<lparr>timer_armed := False\<rparr>)
      else p)"
| "geo_step (OnPosition lat lon acc) p =
     resolve (JObj [(''latitude'', JNum lat), (''longitude'', JNum lon),
                    (''accuracy'', JNum acc)])
       (clearTimeout p)"
| "geo_step (OnPositionError msg) p =
     resolve (JObj [(''latitude'', JNum 0), (''longitude'', JNum 0),
                    (''error'', JStr (''Location error: '' @ msg))])
       (clearTimeout p)"

definition geo_run :: "geo_event list \<Rightarrow> loc_promise" where
  "geo_run evs = foldl (\<lambda>p ev. geo_step ev p) executor_done evs"

text \<open>
  What the geolocation query of the environment does: it calls back once, at some time,
  with a position or with an error, or it never calls back. The order of the callbacks
  follows from the times. The timer is armed (line 244) before the query is started
  (line 253), so a query that calls back at the very time of the deadline runs after the
  timer's callback; only a query that calls back earlier runs before it.
\<close>

datatype geo_outcome =
    GeoPosition nat real real real
  | GeoFailure nat string
  | GeoSilent

fun interleaving :: "geo_outcome \<Rightarrow> geo_event list" where
  "interleaving (GeoPosition t lat lon acc) =
     (if t < location_timeout then [OnPosition lat lon acc, DeadlinePasses]
      else [DeadlinePasses, OnPosition lat lon acc])"
| "interleaving (GeoFailure t msg) =
     (if t < location_timeout then [OnPositionError msg, DeadlinePasses]
      else [DeadlinePasses, OnPositionError msg])"
| "interleaving GeoSilent = [DeadlinePasses]"

text \<open>
  The executor calls \<^verbatim>\<open>navigator.geolocation.getCurrentPosition\<close> with no test of
  \<^verbatim>\<open>navigator.geolocation\<close> (line 253). Where the browser has no Geolocation API the
  object is \<^verbatim>\<open>undefined\<close>, the property access throws a \<^verbatim>\<open>TypeError\<close> inside the
  executor, and the promise is rejected with it. The timer armed at line 244 fires later
  and calls \<^verbatim>\<open>resolve\<close> on the promise that is already rejected, without effect. The
  message is the engine's; the one below is V8's.
\<close>

definition geolocation_undefined :: exn where
  "geolocation_undefined =
     Exn (''Cannot read properties of undefined (reading '' @ [CHR 0x27]
          @ ''getCurrentPosition'' @ [CHR 0x27] @ '')'')"

text \<open>
  What awaiting the promise gives. The argument is \<^verbatim>\<open>navigator.geolocation\<close>: \<open>None\<close>
  when it is \<^verbatim>\<open>undefined\<close>, the behaviour of its query otherwise. \<open>Pending\<close> stands
  for a promise that no callback ever resolves.
\<close>

definition getLocationWithFallback :: "geo_outcome option \<Rightarrow> jv settled" where
  "getLocationWithFallback api =
     (case api of
        None \<Rightarrow> Rejected geolocation_undefined
      | Some g \<Rightarrow>
          (case resolved (geo_run (interleaving g)) of
             None \<Rightarrow> Pending
           | Some v \<Rightarrow> Fulfilled v))"

subsection \<open>The environment of one attempt\<close>

record media_stream =
  stream_id :: nat
  tracks :: "nat list"

text \<open>
  Of a \<^verbatim>\<open>Response\<close> the code reads \<^verbatim>\<open>status\<close>, \<^verbatim>\<open>ok\<close> and \<^verbatim>\<open>json()\<close>; the last
  one is a promise: the parsed body, a rejection when the body is not JSON, or no
  settlement when the body never ends.
\<close>

record http_response =
  resp_status :: nat
  resp_json :: "jv settled"

definition ok :: "http_response \<Rightarrow> bool" where
  "ok r = (200 \<le> resp_status r \<and> resp_status r \<le> 299)"

text \<open>
  Everything one run of the \<^verbatim>\<open>try\<close> block (lines 126 to 220) asks of the browser:
  \<^item> \<open>camera\<close>: the promise of \<^verbatim>\<open>getUserMedia\<close>;
  \<^item> \<open>loadedmetadata\<close>: when the video element fires the event, if ever;
  \<^item> \<open>canvas_failure\<close>: the exception thrown by the canvas statements of lines 152 to
    157, if any; \<open>videoWidth\<close>, \<open>videoHeight\<close> and \<open>jpeg_data\<close> (the encoded frame,
    in base64) otherwise determine the data URL;
  \<^item> \<open>geolocation\<close>: \<^verbatim>\<open>navigator.geolocation\<close>, which is \<^verbatim>\<open>undefined\<close> (\<open>None\<close>)
    in a browser without the Geolocation API, and otherwise behaves as given;
  \<^item> the four strings of \<^verbatim>\<open>deviceInfo\<close>;
  \<^item> \<open>ip_fetch\<close> and \<open>upload_fetch\<close>: the two \<^verbatim>\<open>fetch\<close> promises, with the time at
    which each settles.
\<close>

record attempt_env =
  camera :: "media_stream settled"
  loadedmetadata :: "nat option"
  canvas_failure :: "exn option"
  videoWidth :: nat
  videoHeight :: nat
  jpeg_data :: string
  geolocation :: "geo_outcome option"
  userAgent :: string
  platform :: string
  language :: string
  timestamp :: string
  ip_fetch :: "nat \<times> http_response settled"
  upload_fetch :: "nat \<times> http_response settled"

text \<open>
  \<^verbatim>\<open>canvas.toDataURL("image/jpeg", 0.8)\<close>: the string \<^verbatim>\<open>data:,\<close> for a canvas without
  pixels, the data URL of the encoded frame otherwise.
\<close>

definition toDataURL :: "nat \<Rightarrow> nat \<Rightarrow> string \<Rightarrow> string" where
  "toDataURL w h d = (if w = 0 \<or> h = 0 then ''data:,'' else ''data:image/jpeg;base64,'' @ d)"

text \<open>The rendering of a number in a template literal, for \<^verbatim>\<open>${response.status}\<close>.\<close>

fun show_nat :: "nat \<Rightarrow> string" where
  "show_nat n =
     (if n < 10 then [''0123456789'' ! n]
      else show_nat (n div 10) @ [''0123456789'' ! (n mod 10)])"

declare show_nat.simps [simp del]

subsection \<open>Observable effects\<close>

text \<open>
  The effects of the component on its surroundings, in the order in which they happen:
  the two React state setters, the camera calls, the geolocation query, the two HTTP
  requests (the POST with its URL, headers and the object given to
  \<^verbatim>\<open>JSON.stringify\<close>), and the retry timer. \<open>GetUserMedia\<close> and
  \<open>GetCurrentPosition\<close> record that the call of line 131, or of line 253, is reached;
  what the call gives, a thrown \<^verbatim>\<open>TypeError\<close> included, is in the environment.
\<close>

datatype event =
    SetStatus string
  | SetRetryCount nat
  | GetUserMedia
  | SrcObject nat
  | TrackStop nat nat
  | GetCurrentPosition
  | FetchGet string
  | Post string "(string \<times> string) list" jv
  | SetTimeout nat

definition success_status :: string where
  "success_status = [CHR 0xE2, CHR 0x9C, CHR 0x93] @ '' Data captured and saved successfully!''"

definition failed_status :: string where
  "failed_status = ''Failed to capture. Please refresh and try again.''"

definition MAX_RETRIES :: nat where
  "MAX_RETRIES = 3"

subsection \<open>The orchestrator \<^verbatim>\<open>captureData\<close> (lines 125 to 236)\<close>

text \<open>
  The \<^verbatim>\<open>try\<close> block is embedded in the order of its statements, in the parts
  that the properties below speak about. Each part returns how it ends (\<open>Fulfilled\<close>: it runs to
  its end; \<open>Rejected\<close>: an exception leaves it; \<open>Pending\<close>: an awaited promise never
  settles and the function never resumes) and the effects it had.

  Lines 127 to 160: the status, the camera, the wait for the metadata under a timeout of
  5000 ms, the frame, and the stop of every track.
\<close>

definition capture_image :: "attempt_env \<Rightarrow> string settled \<times> event list" where
  "capture_image e =
     (case camera e of
        Pending \<Rightarrow> (Pending, [SetStatus ''Requesting camera access...'', GetUserMedia])
      | Rejected x \<Rightarrow> (Rejected x, [SetStatus ''Requesting camera access...'', GetUserMedia])
      | Fulfilled stream \<Rightarrow>
          (case race_timeout
                  (case loadedmetadata e of None \<Rightarrow> (0, Pending) | Some t \<Rightarrow> (t, Fulfilled ()))
                  5000 ''Video load timeout'' of
             Inl x \<Rightarrow>
               (Rejected x,
                [SetStatus ''Requesting camera access...'', GetUserMedia,
                 SrcObject (stream_id stream)])
           | Inr u \<Rightarrow>
               (case canvas_failure e of
                  Some x \<Rightarrow>
                    (Rejected x,
                     [SetStatus ''Requesting camera access...'', GetUserMedia,
                      SrcObject (stream_id stream), SetStatus ''Capturing photo...''])
                | None \<Rightarrow>
                    (Fulfilled (toDataURL (videoWidth e) (videoHeight e) (jpeg_data e)),
                     [SetStatus ''Requesting camera access...'', GetUserMedia,
                      SrcObject (stream_id stream), SetStatus ''Capturing photo...'']
                     @ map (TrackStop (stream_id stream)) (tracks stream)))))"

text \<open>Lines 170 to 175.\<close>

definition deviceInfo :: "attempt_env \<Rightarrow> jv" where
  "deviceInfo e =
     JObj [(''userAgent'', JStr (userAgent e)), (''platform'', JStr (platform e)),
           (''language'', JStr (language e)), (''timestamp'', JStr (timestamp e))]"

text \<open>
  Lines 178 to 189: the value of \<^verbatim>\<open>ipData\<close> after the inner \<^verbatim>\<open>try\<close>/\<^verbatim>\<open>catch\<close>, or
  \<open>None\<close> when \<^verbatim>\<open>ipResponse.json()\<close> never settles. The \<^verbatim>\<open>catch\<close> only logs, so
  \<^verbatim>\<open>ipData\<close> keeps its initial value there.
\<close>

definition ip_lookup :: "attempt_env \<Rightarrow> jv option" where
  "ip_lookup e =
     (case race_timeout (ip_fetch e) 5000 ''IP fetch timeout'' of
        Inl err \<Rightarrow> Some (JObj [(''ip'', JStr ''Unknown'')])
      | Inr ipResponse \<Rightarrow>
          (case resp_json ipResponse of
             Fulfilled body \<Rightarrow> Some body
           | Rejected err \<Rightarrow> Some (JObj [(''ip'', JStr ''Unknown'')])
           | Pending \<Rightarrow> None))"

text \<open>Lines 194 to 199.\<close>

definition payload :: "string \<Rightarrow> jv \<Rightarrow> jv \<Rightarrow> jv \<Rightarrow> jv" where
  "payload img location devInfo ipData =
     JObj [(''image'', JStr img), (''location'', location), (''deviceInfo'', devInfo),
           (''ipAddress'', or_else (opt_chain ipData ''ip'') (JStr ''Unknown''))]"

text \<open>
  Lines 202 to 220: the request is made in every case; the race with the timer of
  30000 ms decides what the code sees of it.
\<close>

definition submit ::
  "string option \<Rightarrow> page_location \<Rightarrow> attempt_env \<Rightarrow> jv \<Rightarrow> unit settled \<times> event list" where
  "submit VITE_API_URL loc e body =
     (let apiUrl = getApiUrl VITE_API_URL loc;
          request = Post (apiUrl @ ''/api/capture'')
                      [(''Content-Type'', ''application/json'')] body
      in case race_timeout (upload_fetch e) 30000 ''Upload timeout'' of
           Inl x \<Rightarrow> (Rejected x, [request])
         | Inr response \<Rightarrow>
             (if ok response
              then (case resp_json response of
                      Fulfilled result \<Rightarrow> (Fulfilled (), [request, SetStatus success_status])
                    | Rejected x \<Rightarrow> (Rejected x, [request])
                    | Pending \<Rightarrow> (Pending, [request]))
              else (Rejected (Exn (''Server error: '' @ show_nat (resp_status response))),
                    [request])))"

text \<open>The whole \<^verbatim>\<open>try\<close> block.\<close>

definition ip_url :: string where
  "ip_url = ''https://ipinfo.io/json?token=29fe5e73fe5e82''"

definition attempt ::
  "string option \<Rightarrow> page_location \<Rightarrow> attempt_env \<Rightarrow> unit settled \<times> event list" where
  "attempt VITE_API_URL loc e =
     (case capture_image e of
        (Pending, evs) \<Rightarrow> (Pending, evs)
      | (Rejected x, evs) \<Rightarrow> (Rejected x, evs)
      | (Fulfilled img, evs) \<Rightarrow>
          (case getLocationWithFallback (geolocation e) of
             Pending \<Rightarrow>
               (Pending, evs @ [SetStatus ''Getting location...'', GetCurrentPosition])
           | Rejected x \<Rightarrow>
               (Rejected x, evs @ [SetStatus ''Getting location...'', GetCurrentPosition])
           | Fulfilled location \<Rightarrow>
               (case ip_lookup e of
                  None \<Rightarrow>
                    (Pending,
                     evs @ [SetStatus ''Getting location...'', GetCurrentPosition,
                            SetStatus ''Getting device info...'', FetchGet ip_url])
                | Some ipData \<Rightarrow>
                    (case submit VITE_API_URL loc e
                            (payload img location (deviceInfo e) ipData) of
                       (r, sent) \<Rightarrow>
                         (r, evs @ [SetStatus ''Getting location...'', GetCurrentPosition,
                                    SetStatus ''Getting device info...'', FetchGet ip_url,
                                    SetStatus ''Saving data...''] @ sent)))))"

text \<open>
  The function with its \<^verbatim>\<open>catch\<close> block (lines 221 to 235), run against a script of
  environments, one for each attempt that the browser gets to serve. The script ending
  stands for the observation ending there.

  The parameter \<open>rc\<close> is the variable \<^verbatim>\<open>retryCount\<close> as this function sees it.
  \<^verbatim>\<open>captureData\<close> is declared inside \<^verbatim>\<open>App\<close>, so each render has its own function,
  closed over the \<^verbatim>\<open>const retryCount\<close> of that render. \<^verbatim>\<open>setRetryCount\<close> changes the
  state of the component, which a later render reads; it does not change the constant of
  a render that has happened. The timer callback of line 230 calls the
  \<^verbatim>\<open>captureData\<close> of its own scope, which is the very function that is running: the
  retry runs with the same \<open>rc\<close>.
\<close>

fun captureData ::
  "nat \<Rightarrow> string option \<Rightarrow> page_location \<Rightarrow> attempt_env list \<Rightarrow> event list" where
  "captureData rc VITE_API_URL loc [] = []"
| "captureData rc VITE_API_URL loc (e # es) =
     (case attempt VITE_API_URL loc e of
        (Fulfilled u, evs) \<Rightarrow> evs
      | (Pending, evs) \<Rightarrow> evs
      | (Rejected error, evs) \<Rightarrow>
          evs @ [SetStatus (''Error: '' @ message error)] @
          (if rc < MAX_RETRIES
           then [SetRetryCount (rc + 1), SetTimeout 2000, SetStatus ''Retrying...'']
                @ captureData rc VITE_API_URL loc es
           else [SetStatus failed_status]))"

subsection \<open>The component state and the mount\<close>

text \<open>Lines 107 and 108: the two state cells and their initial values.\<close>

record app_state =
  status :: string
  retryCount :: nat

definition initial_state :: app_state where
  "initial_state = \<lparr>status = ''Loading Resources...'', retryCount = 0\<rparr>"

fun apply_event :: "app_state \<Rightarrow> event \<Rightarrow> app_state" where
  "apply_event s (SetStatus v) = s\<lparr>status := v\<rparr>"
| "apply_event s (SetRetryCount n) = s\<lparr>retryCount := n\<rparr>"
| "apply_event s ev = s"

definition state_after :: "event list \<Rightarrow> app_state" where
  "state_after evs = foldl apply_event initial_state evs"

text \<open>
  Lines 281 to 284: the effect has no dependencies, so it runs once, after the first
  render, and calls the \<^verbatim>\<open>captureData\<close> of that render, whose \<^verbatim>\<open>retryCount\<close> is the
  initial one.
\<close>

definition mount :: "string option \<Rightarrow> page_location \<Rightarrow> attempt_env list \<Rightarrow> event list" where
  "mount VITE_API_URL loc script = captureData (retryCount initial_state) VITE_API_URL loc script"

text \<open>Projections of a trace.\<close>

fun statuses :: "event list \<Rightarrow> string list" where
  "statuses [] = []"
| "statuses (SetStatus v # evs) = v # statuses evs"
| "statuses (ev # evs) = statuses evs"

fun retry_counts :: "event list \<Rightarrow> nat list" where
  "retry_counts [] = []"
| "retry_counts (SetRetryCount n # evs) = n # retry_counts evs"
| "retry_counts (ev # evs) = retry_counts evs"

fun posts :: "event list \<Rightarrow> jv list" where
  "posts [] = []"
| "posts (Post url hs body # evs) = body # posts evs"
| "posts (ev # evs) = posts evs"

fun camera_requests :: "event list \<Rightarrow> nat" where
  "camera_requests [] = 0"
| "camera_requests (GetUserMedia # evs) = Suc (camera_requests evs)"
| "camera_requests (ev # evs) = camera_requests evs"

fun attached_streams :: "event list \<Rightarrow> nat list" where
  "attached_streams [] = []"
| "attached_streams (SrcObject sid # evs) = sid # attached_streams evs"
| "attached_streams (ev # evs) = attached_streams evs"

fun stopped_tracks :: "event list \<Rightarrow> (nat \<times> nat) list" where
  "stopped_tracks [] = []"
| "stopped_tracks (TrackStop sid tid # evs) = (sid, tid) # stopped_tracks evs"
| "stopped_tracks (ev # evs) = stopped_tracks evs"

subsection \<open>Scenarios\<close>

text \<open>
  Concrete environments, after the scenarios of the specification. In scenario A the
  camera and the location are granted, the IP lookup answers and the server returns 200
  with a JSON body.
\<close>

definition scenario_A :: attempt_env where
  "scenario_A =
     \<lparr>camera = Fulfilled \<lparr>stream_id = 1, tracks = [0]\<rparr>,
      loadedmetadata = Some 300,
      canvas_failure = None,
      videoWidth = 1280,
      videoHeight = 720,
      jpeg_data = ''AAAA'',
      geolocation = Some (GeoPosition 800 48 2 30),
      userAgent = ''UA'',
      platform = ''Linux'',
      language = ''en'',
      timestamp = ''2024-01-01T00:00:00.000Z'',
      ip_fetch = (200, Fulfilled \<lparr>resp_status = 200,
                    resp_json = Fulfilled (JObj [(''ip'', JStr ''203.0.113.7'')])\<rparr>),
      upload_fetch = (900, Fulfilled \<lparr>resp_status = 200,
                        resp_json = Fulfilled (JObj [])\<rparr>)\<rparr>"

text \<open>Scenario B: the location permission is denied.\<close>

definition scenario_B :: attempt_env where
  "scenario_B =
     scenario_A\<lparr>geolocation := Some (GeoFailure 40 ''User denied Geolocation'')\<rparr>"

definition page :: page_location where
  "page = \<lparr>protocol = ''https:'', hostname = ''example.org'', port = []\<rparr>"

text \<open>Scenario C: the IP lookup answers after 7000 ms.\<close>

definition scenario_C :: attempt_env where
  "scenario_C = scenario_A\<lparr>ip_fetch := (7000, Fulfilled \<lparr>resp_status = 200,
                    resp_json = Fulfilled (JObj [(''ip'', JStr ''203.0.113.7'')])\<rparr>)\<rparr>"

text \<open>The IP lookup answers in time with a JSON body that has no \<^verbatim>\<open>ip\<close> field.\<close>

definition scenario_no_ip :: attempt_env where
  "scenario_no_ip = scenario_A\<lparr>ip_fetch := (200, Fulfilled \<lparr>resp_status = 429,
                    resp_json = Fulfilled (JObj [(''error'', JStr ''rate limited'')])\<rparr>)\<rparr>"

text \<open>Scenario D: the server answers 500.\<close>

definition scenario_D :: attempt_env where
  "scenario_D = scenario_A\<lparr>upload_fetch := (900, Fulfilled \<lparr>resp_status = 500,
                        resp_json = Fulfilled (JObj [(''error'', JStr ''internal'')])\<rparr>)\<rparr>"

text \<open>Scenario E: the video metadata never becomes available.\<close>

definition scenario_E :: attempt_env where
  "scenario_E = scenario_A\<lparr>camera := Fulfilled \<lparr>stream_id = 7, tracks = [0, 1]\<rparr>,
                           loadedmetadata := None\<rparr>"

text \<open>
  A browser with a camera and no Geolocation API: \<^verbatim>\<open>navigator.geolocation\<close> is
  \<^verbatim>\<open>undefined\<close>.
\<close>

definition scenario_no_geolocation :: attempt_env where
  "scenario_no_geolocation = scenario_A\<lparr>geolocation := None\<rparr>"

text \<open>
  The IP lookup service sends its response headers after 200 ms and never finishes the
  body.
\<close>

definition scenario_stalled_ip :: attempt_env where
  "scenario_stalled_ip =
     scenario_A\<lparr>ip_fetch := (200, Fulfilled \<lparr>resp_status = 200, resp_json = Pending\<rparr>)\<rparr>"

section \<open>Properties\<close>

subsection \<open>Endpoint resolver\<close>

lemma getApiUrl_configured:
  "getApiUrl (Some (c # cs)) loc = c # cs"
  by (simp add: getApiUrl_def)

lemma getApiUrl_loopback:
  "getApiUrl None \<lparr>protocol = p, hostname = ''localhost'', port = q\<rparr> = p @ ''//localhost:5000''"
  "getApiUrl None \<lparr>protocol = p, hostname = ''127.0.0.1'', port = q\<rparr> = p @ ''//127.0.0.1:5000''"
  by (simp_all add: getApiUrl_def)

text \<open>
  C2. The claim: the configured URL when present; otherwise protocol and host name, with
  \<^verbatim>\<open>:5000\<close> exactly for the loopback names, and for every other host name the page's own
  origin, port included. On a page served from \<^verbatim>\<open>http://192.168.1.10:8080\<close> with no
  configured URL the code returns \<^verbatim>\<open>http://192.168.1.10\<close>: the page's port is dropped,
  and the result is not the page's origin. The comment at line 119 says "otherwise use
  current port".
\<close>

theorem getApiUrl_drops_page_port:
  "getApiUrl None \<lparr>protocol = ''http:'', hostname = ''192.168.1.10'', port = ''8080''\<rparr>
     = ''http://192.168.1.10''
   \<and> origin \<lparr>protocol = ''http:'', hostname = ''192.168.1.10'', port = ''8080''\<rparr>
     = ''http://192.168.1.10:8080''
   \<and> getApiUrl None \<lparr>protocol = ''http:'', hostname = ''192.168.1.10'', port = ''8080''\<rparr>
     \<noteq> origin \<lparr>protocol = ''http:'', hostname = ''192.168.1.10'', port = ''8080''\<rparr>"
  by (simp add: getApiUrl_def origin_def)


subsection \<open>Auxiliary facts\<close>

text \<open>The value of the location promise, for each behaviour of the geolocation query.\<close>

lemma getLocationWithFallback_eq:
  "getLocationWithFallback (Some g) =
     Fulfilled (case g of
             GeoPosition t lat lon acc \<Rightarrow>
               if t < 10000
               then JObj [(''latitude'', JNum lat), (''longitude'', JNum lon), (''accuracy'', JNum acc)]
               else JObj [(''latitude'', JNum 0), (''longitude'', JNum 0),
                          (''error'', JStr ''Location timeout - using default'')]
           | GeoFailure t msg \<Rightarrow>
               if t < 10000
               then JObj [(''latitude'', JNum 0), (''longitude'', JNum 0),
                          (''error'', JStr (''Location error: '' @ msg))]
               else JObj [(''latitude'', JNum 0), (''longitude'', JNum 0),
                          (''error'', JStr ''Location timeout - using default'')]
           | GeoSilent \<Rightarrow>
               JObj [(''latitude'', JNum 0), (''longitude'', JNum 0),
                     (''error'', JStr ''Location timeout - using default'')])"
  by (cases g)
     (simp_all add: getLocationWithFallback_def geo_run_def executor_done_def resolve_def
        clearTimeout_def location_timeout_def)

lemma attempt_after_capture:
  assumes "capture_image e = (Fulfilled img, evs)"
    and "getLocationWithFallback (geolocation e) = Fulfilled location"
    and "ip_lookup e = Some ipData"
  shows "attempt cfg pl e =
           (fst (submit cfg pl e (payload img location (deviceInfo e) ipData)),
            evs @ [SetStatus ''Getting location...'', GetCurrentPosition,
                   SetStatus ''Getting device info...'', FetchGet ip_url,
                   SetStatus ''Saving data...'']
                @ snd (submit cfg pl e (payload img location (deviceInfo e) ipData)))"
  using assms by (simp add: attempt_def split: prod.splits)

lemma posts_append: "posts (xs @ ys) = posts xs @ posts ys"
  by (induction xs rule: posts.induct) simp_all

lemma statuses_append: "statuses (xs @ ys) = statuses xs @ statuses ys"
  by (induction xs rule: statuses.induct) simp_all

lemma posts_TrackStop: "posts (map (TrackStop sid) ts) = []"
  by (induction ts) simp_all

lemma statuses_TrackStop: "statuses (map (TrackStop sid) ts) = []"
  by (induction ts) simp_all

lemma posts_capture_image: "posts (snd (capture_image e)) = []"
  by (simp add: capture_image_def posts_append posts_TrackStop
        split: settled.splits sum.splits option.splits)

lemma posts_submit: "posts (snd (submit cfg pl e body)) = [body]"
  by (simp add: submit_def Let_def split: settled.splits sum.splits)


subsection \<open>Location resolver\<close>

lemma getLocationWithFallback_undefined:
  "getLocationWithFallback None = Rejected geolocation_undefined"
  by (simp add: getLocationWithFallback_def)

lemma getLocationWithFallback_cases:
  "(api = None \<and> getLocationWithFallback api = Rejected geolocation_undefined)
   \<or> (\<exists>location. getLocationWithFallback api = Fulfilled location)"
  by (cases api) (simp_all add: getLocationWithFallback_undefined getLocationWithFallback_eq)

lemma location_shape:
  assumes "getLocationWithFallback api = Fulfilled location"
  shows "\<exists>lat lon rest.
           location = JObj ((''latitude'', JNum lat) # (''longitude'', JNum lon) # rest)"
proof (cases api)
  case None
  then show ?thesis
    using assms by (simp add: getLocationWithFallback_undefined)
next
  case (Some g)
  then show ?thesis
    using assms
    by (auto simp: getLocationWithFallback_eq split: geo_outcome.splits if_splits)
qed

lemma attempt_location_rejected:
  assumes "capture_image e = (Fulfilled img, evs)"
    and "getLocationWithFallback (geolocation e) = Rejected x"
  shows "attempt cfg pl e =
           (Rejected x, evs @ [SetStatus ''Getting location...'', GetCurrentPosition])"
  using assms by (simp add: attempt_def)

text \<open>
  With the Geolocation API present, whatever the geolocation query does, the promise is
  resolved, with an object whose \<^verbatim>\<open>latitude\<close> and \<^verbatim>\<open>longitude\<close> are numbers: the
  real coordinates with the accuracy when the query succeeds before the deadline, and
  zeros with a non-empty \<^verbatim>\<open>error\<close> string (a fixed prefix followed by the error's
  message, or the fixed timeout text) when the query fails or the 10000 ms pass. In an
  attempt whose capture has succeeded and whose IP lookup has settled, the upload request
  is then made, with that location in its payload.
\<close>

lemma location_with_api:
  assumes "capture_image e = (Fulfilled img, evs)"
    and "ip_lookup e = Some ipData"
    and "geolocation e = Some g"
  shows "\<exists>location lat lon rest.
           getLocationWithFallback (geolocation e) = Fulfilled location
         \<and> location = JObj ((''latitude'', JNum lat) # (''longitude'', JNum lon) # rest)
         \<and> location =
             (case g of
                GeoPosition t la lo acc \<Rightarrow>
                  if t < 10000
                  then JObj [(''latitude'', JNum la), (''longitude'', JNum lo),
                             (''accuracy'', JNum acc)]
                  else JObj [(''latitude'', JNum 0), (''longitude'', JNum 0),
                             (''error'', JStr ''Location timeout - using default'')]
              | GeoFailure t msg \<Rightarrow>
                  if t < 10000
                  then JObj [(''latitude'', JNum 0), (''longitude'', JNum 0),
                             (''error'', JStr (''Location error: '' @ msg))]
                  else JObj [(''latitude'', JNum 0), (''longitude'', JNum 0),
                             (''error'', JStr ''Location timeout - using default'')]
              | GeoSilent \<Rightarrow>
                  JObj [(''latitude'', JNum 0), (''longitude'', JNum 0),
                        (''error'', JStr ''Location timeout - using default'')])
         \<and> posts (snd (attempt cfg pl e)) = [payload img location (deviceInfo e) ipData]"
proof -
  obtain location where loc: "getLocationWithFallback (geolocation e) = Fulfilled location"
    by (simp add: assms(3) getLocationWithFallback_eq)
  have shape: "\<exists>lat lon rest. location = JObj ((''latitude'', JNum lat) # (''longitude'', JNum lon) # rest)"
    using loc by (rule location_shape)
  have sent: "posts (snd (attempt cfg pl e)) = [payload img location (deviceInfo e) ipData]"
    using assms(1) posts_capture_image [of e]
    by (simp add: attempt_after_capture [OF assms(1) loc assms(2)] posts_append posts_submit)
  show ?thesis
    using loc shape sent by (auto simp: assms(3) getLocationWithFallback_eq)
qed

text \<open>Scenario B: the permission is denied, and the attempt uploads the default location.\<close>

lemma location_with_api_scenario_B:
  "capture_image scenario_B =
     (Fulfilled ''data:image/jpeg;base64,AAAA'',
      [SetStatus ''Requesting camera access...'', GetUserMedia, SrcObject 1,
       SetStatus ''Capturing photo...'', TrackStop 1 0])
   \<and> ip_lookup scenario_B = Some (JObj [(''ip'', JStr ''203.0.113.7'')])
   \<and> getLocationWithFallback (geolocation scenario_B) =
       Fulfilled (JObj [(''latitude'', JNum 0), (''longitude'', JNum 0),
                        (''error'', JStr ''Location error: User denied Geolocation'')])
   \<and> posts (snd (attempt None page scenario_B)) =
       [payload ''data:image/jpeg;base64,AAAA''
          (JObj [(''latitude'', JNum 0), (''longitude'', JNum 0),
                 (''error'', JStr ''Location error: User denied Geolocation'')])
          (deviceInfo scenario_B) (JObj [(''ip'', JStr ''203.0.113.7'')])]"
proof -
  have h1: "capture_image scenario_B =
     (Fulfilled ''data:image/jpeg;base64,AAAA'',
      [SetStatus ''Requesting camera access...'', GetUserMedia, SrcObject 1,
       SetStatus ''Capturing photo...'', TrackStop 1 0])"
    by (simp add: capture_image_def scenario_B_def scenario_A_def race_timeout_def toDataURL_def)
  have h2: "ip_lookup scenario_B = Some (JObj [(''ip'', JStr ''203.0.113.7'')])"
    by (simp add: ip_lookup_def scenario_B_def scenario_A_def race_timeout_def)
  have g: "geolocation scenario_B = Some (GeoFailure 40 ''User denied Geolocation'')"
    by (simp add: scenario_B_def scenario_A_def)
  show ?thesis
    using location_with_api [OF h1 h2 g, of None page] h1 h2 by (auto simp: g)
qed

text \<open>
  A callback at the very time of the deadline comes after the timer's: the position is
  not used.
\<close>

lemma location_at_the_deadline:
  "getLocationWithFallback (Some (GeoPosition 10000 lat lon acc)) =
     Fulfilled (JObj [(''latitude'', JNum 0), (''longitude'', JNum 0),
                      (''error'', JStr ''Location timeout - using default'')])"
  by (simp add: getLocationWithFallback_eq)

text \<open>
  C3. The claim: \<^verbatim>\<open>getLocationWithFallback\<close> never raises to its caller, and the
  attempt goes on to the upload with a default location when geolocation is unavailable.
  In a browser whose \<^verbatim>\<open>navigator.geolocation\<close> is \<^verbatim>\<open>undefined\<close>, with the camera
  granted, the call of line 253 throws, the promise is rejected, the \<^verbatim>\<open>await\<close> of line
  165 raises into the handler of \<^verbatim>\<open>captureData\<close>, and the attempt ends there: no
  default location is produced, nothing is uploaded, and the status shows the error
  before the retry. The comment at line 265 says "Return default location if permission
  denied or unavailable".
\<close>

theorem location_rejects_without_api:
  "geolocation scenario_no_geolocation = None
   \<and> getLocationWithFallback (geolocation scenario_no_geolocation)
       = Rejected geolocation_undefined
   \<and> attempt None page scenario_no_geolocation =
       (Rejected geolocation_undefined,
        [SetStatus ''Requesting camera access...'', GetUserMedia, SrcObject 1,
         SetStatus ''Capturing photo...'', TrackStop 1 0,
         SetStatus ''Getting location...'', GetCurrentPosition])
   \<and> posts (mount None page [scenario_no_geolocation]) = []
   \<and> statuses (mount None page [scenario_no_geolocation]) =
       [''Requesting camera access...'', ''Capturing photo...'', ''Getting location...'',
        ''Error: '' @ message geolocation_undefined, ''Retrying...'']"
proof -
  have c: "capture_image scenario_no_geolocation =
     (Fulfilled ''data:image/jpeg;base64,AAAA'',
      [SetStatus ''Requesting camera access...'', GetUserMedia, SrcObject 1,
       SetStatus ''Capturing photo...'', TrackStop 1 0])"
    by (simp add: capture_image_def scenario_no_geolocation_def scenario_A_def
          race_timeout_def toDataURL_def)
  have g: "geolocation scenario_no_geolocation = None"
    by (simp add: scenario_no_geolocation_def)
  have r: "getLocationWithFallback (geolocation scenario_no_geolocation)
       = Rejected geolocation_undefined"
    by (simp add: g getLocationWithFallback_undefined)
  have att: "attempt None page scenario_no_geolocation =
       (Rejected geolocation_undefined,
        [SetStatus ''Requesting camera access...'', GetUserMedia, SrcObject 1,
         SetStatus ''Capturing photo...'', TrackStop 1 0,
         SetStatus ''Getting location...'', GetCurrentPosition])"
    using attempt_location_rejected [OF c r, of None page] by simp
  have m: "mount None page [scenario_no_geolocation] =
        [SetStatus ''Requesting camera access...'', GetUserMedia, SrcObject 1,
         SetStatus ''Capturing photo...'', TrackStop 1 0,
         SetStatus ''Getting location...'', GetCurrentPosition,
         SetStatus (''Error: '' @ message geolocation_undefined),
         SetRetryCount 1, SetTimeout 2000, SetStatus ''Retrying...'']"
    by (simp add: mount_def initial_state_def MAX_RETRIES_def att)
  show ?thesis
    using g r att by (simp add: m)
qed


subsection \<open>IP lookup\<close>

lemma ip_lookup_failure:
  assumes "(\<exists>t x. ip_fetch e = (t, Rejected x))
         \<or> (\<exists>t r. ip_fetch e = (t, r) \<and> 5000 < t)
         \<or> (\<exists>t. ip_fetch e = (t, Pending))
         \<or> (\<exists>t r x. ip_fetch e = (t, Fulfilled r) \<and> resp_json r = Rejected x)"
  shows "ip_lookup e = Some (JObj [(''ip'', JStr ''Unknown'')])"
  using assms
  by (auto simp: ip_lookup_def race_timeout_def split: settled.splits)

text \<open>
  When the \<^verbatim>\<open>fetch\<close> promise of the lookup is rejected, or has not settled when the
  5000 ms have passed, or the body of the response is not JSON, the payload that is
  posted has \<^verbatim>\<open>ipAddress\<close> equal to \<^verbatim>\<open>"Unknown"\<close>, and the attempt ends as its
  submission ends: such a failure of the lookup does not reach the handler.
\<close>

lemma ip_failure_absorbed:
  assumes "capture_image e = (Fulfilled img, evs)"
    and "getLocationWithFallback (geolocation e) = Fulfilled location"
    and "(\<exists>t x. ip_fetch e = (t, Rejected x))
         \<or> (\<exists>t r. ip_fetch e = (t, r) \<and> 5000 < t)
         \<or> (\<exists>t. ip_fetch e = (t, Pending))
         \<or> (\<exists>t r x. ip_fetch e = (t, Fulfilled r) \<and> resp_json r = Rejected x)"
  shows "\<exists>body.
           body = JObj [(''image'', JStr img), (''location'', location),
                        (''deviceInfo'', deviceInfo e), (''ipAddress'', JStr ''Unknown'')]
         \<and> posts (snd (attempt cfg pl e)) = [body]
         \<and> fst (attempt cfg pl e) = fst (submit cfg pl e body)"
proof -
  have ip: "ip_lookup e = Some (JObj [(''ip'', JStr ''Unknown'')])"
    using assms(3) by (rule ip_lookup_failure)
  have body: "payload img location (deviceInfo e) (JObj [(''ip'', JStr ''Unknown'')]) =
      JObj [(''image'', JStr img), (''location'', location),
            (''deviceInfo'', deviceInfo e), (''ipAddress'', JStr ''Unknown'')]"
    by (simp add: payload_def or_else_def)
  have att: "attempt cfg pl e =
      (fst (submit cfg pl e (payload img location (deviceInfo e) (JObj [(''ip'', JStr ''Unknown'')]))),
       evs @ [SetStatus ''Getting location...'', GetCurrentPosition,
              SetStatus ''Getting device info...'', FetchGet ip_url,
              SetStatus ''Saving data...'']
           @ snd (submit cfg pl e (payload img location (deviceInfo e) (JObj [(''ip'', JStr ''Unknown'')]))))"
    by (rule attempt_after_capture [OF assms(1) assms(2) ip])
  have sent: "posts (snd (attempt cfg pl e)) =
      [JObj [(''image'', JStr img), (''location'', location),
             (''deviceInfo'', deviceInfo e), (''ipAddress'', JStr ''Unknown'')]]"
    using assms(1) posts_capture_image [of e]
    by (simp add: att posts_append posts_submit body)
  show ?thesis
    using sent att body by simp
qed

text \<open>Scenario C: the lookup answers after 7000 ms, and the attempt succeeds.\<close>

lemma ip_failure_absorbed_scenario_C:
  "capture_image scenario_C =
     (Fulfilled ''data:image/jpeg;base64,AAAA'',
      [SetStatus ''Requesting camera access...'', GetUserMedia, SrcObject 1,
       SetStatus ''Capturing photo...'', TrackStop 1 0])
   \<and> fst (ip_fetch scenario_C) = 7000
   \<and> posts (snd (attempt None page scenario_C)) =
       [JObj [(''image'', JStr ''data:image/jpeg;base64,AAAA''),
              (''location'', JObj [(''latitude'', JNum 48), (''longitude'', JNum 2),
                                   (''accuracy'', JNum 30)]),
              (''deviceInfo'', deviceInfo scenario_C),
              (''ipAddress'', JStr ''Unknown'')]]
   \<and> fst (attempt None page scenario_C) = Fulfilled ()"
proof -
  have h1: "capture_image scenario_C =
     (Fulfilled ''data:image/jpeg;base64,AAAA'',
      [SetStatus ''Requesting camera access...'', GetUserMedia, SrcObject 1,
       SetStatus ''Capturing photo...'', TrackStop 1 0])"
    by (simp add: capture_image_def scenario_C_def scenario_A_def race_timeout_def toDataURL_def)
  have f: "ip_fetch scenario_C = (7000, Fulfilled \<lparr>resp_status = 200,
                    resp_json = Fulfilled (JObj [(''ip'', JStr ''203.0.113.7'')])\<rparr>)"
    by (simp add: scenario_C_def)
  have h2: "(\<exists>t x. ip_fetch scenario_C = (t, Rejected x))
         \<or> (\<exists>t r. ip_fetch scenario_C = (t, r) \<and> 5000 < t)
         \<or> (\<exists>t. ip_fetch scenario_C = (t, Pending))
         \<or> (\<exists>t r x. ip_fetch scenario_C = (t, Fulfilled r) \<and> resp_json r = Rejected x)"
    by (simp add: f)
  have g: "getLocationWithFallback (geolocation scenario_C) =
      Fulfilled (JObj [(''latitude'', JNum 48), (''longitude'', JNum 2), (''accuracy'', JNum 30)])"
    by (simp add: getLocationWithFallback_eq scenario_C_def scenario_A_def)
  have u: "upload_fetch scenario_C = (900, Fulfilled \<lparr>resp_status = 200,
                        resp_json = Fulfilled (JObj [])\<rparr>)"
    by (simp add: scenario_C_def scenario_A_def)
  show ?thesis
    using ip_failure_absorbed [OF h1 g h2, of None page] h1
    by (auto simp: f submit_def u race_timeout_def ok_def)
qed

text \<open>
  C4. The claim: for every failure of the lookup, a wait beyond the 5000 ms among them,
  \<^verbatim>\<open>ipAddress\<close> is \<^verbatim>\<open>"Unknown"\<close> and the attempt goes on. The race of lines 180 to
  185 holds the \<^verbatim>\<open>fetch\<close> promise only; \<^verbatim>\<open>ipResponse.json()\<close> is awaited outside it
  (line 186). When the service sends its headers after 200 ms and never finishes the
  body, the wait has no bound: \<^verbatim>\<open>ipData\<close> is never assigned, the attempt never resumes,
  nothing is posted, the handler does not run and no retry is scheduled, whatever the
  browser could serve next. The comment at line 177 says "with timeout".
\<close>

theorem ip_body_stall_hangs_attempt:
  "ip_fetch scenario_stalled_ip = (200, Fulfilled \<lparr>resp_status = 200, resp_json = Pending\<rparr>)
   \<and> ip_lookup scenario_stalled_ip = None
   \<and> attempt None page scenario_stalled_ip =
       (Pending,
        [SetStatus ''Requesting camera access...'', GetUserMedia, SrcObject 1,
         SetStatus ''Capturing photo...'', TrackStop 1 0,
         SetStatus ''Getting location...'', GetCurrentPosition,
         SetStatus ''Getting device info...'', FetchGet ip_url])
   \<and> mount None page [scenario_stalled_ip, scenario_A] =
       snd (attempt None page scenario_stalled_ip)
   \<and> posts (mount None page [scenario_stalled_ip, scenario_A]) = []
   \<and> status (state_after (mount None page [scenario_stalled_ip, scenario_A])) =
       ''Getting device info...''"
proof -
  have f: "ip_fetch scenario_stalled_ip =
      (200, Fulfilled \<lparr>resp_status = 200, resp_json = Pending\<rparr>)"
    by (simp add: scenario_stalled_ip_def)
  have i: "ip_lookup scenario_stalled_ip = None"
    by (simp add: ip_lookup_def f race_timeout_def)
  have c: "capture_image scenario_stalled_ip =
     (Fulfilled ''data:image/jpeg;base64,AAAA'',
      [SetStatus ''Requesting camera access...'', GetUserMedia, SrcObject 1,
       SetStatus ''Capturing photo...'', TrackStop 1 0])"
    by (simp add: capture_image_def scenario_stalled_ip_def scenario_A_def race_timeout_def
          toDataURL_def)
  have g: "getLocationWithFallback (geolocation scenario_stalled_ip) =
      Fulfilled (JObj [(''latitude'', JNum 48), (''longitude'', JNum 2), (''accuracy'', JNum 30)])"
    by (simp add: getLocationWithFallback_eq scenario_stalled_ip_def scenario_A_def)
  have att: "attempt None page scenario_stalled_ip =
       (Pending,
        [SetStatus ''Requesting camera access...'', GetUserMedia, SrcObject 1,
         SetStatus ''Capturing photo...'', TrackStop 1 0,
         SetStatus ''Getting location...'', GetCurrentPosition,
         SetStatus ''Getting device info...'', FetchGet ip_url])"
    by (simp add: attempt_def c g i)
  have m: "mount None page [scenario_stalled_ip, scenario_A] =
        [SetStatus ''Requesting camera access...'', GetUserMedia, SrcObject 1,
         SetStatus ''Capturing photo...'', TrackStop 1 0,
         SetStatus ''Getting location...'', GetCurrentPosition,
         SetStatus ''Getting device info...'', FetchGet ip_url]"
    by (simp add: mount_def att)
  show ?thesis
    using f i att by (simp add: m state_after_def initial_state_def)
qed

text \<open>
  C10. When the lookup answers in time with a JSON body whose \<^verbatim>\<open>ip\<close> is missing or
  falsy (the empty string among others), \<^verbatim>\<open>ipAddress\<close> is \<^verbatim>\<open>"Unknown"\<close>, and the
  whole attempt, payload included, is the one of a failed lookup.
\<close>

theorem ip_missing_same_as_failure:
  assumes "ip_fetch e = (t, Fulfilled r)" and "t \<le> 5000"
    and "resp_json r = Fulfilled body"
    and "\<not> truthy (opt_chain body ''ip'')"
  shows "payload img location devInfo body =
           JObj [(''image'', JStr img), (''location'', location), (''deviceInfo'', devInfo),
                 (''ipAddress'', JStr ''Unknown'')]
       \<and> attempt cfg pl e = attempt cfg pl (e\<lparr>ip_fetch := (t, Rejected x)\<rparr>)"
proof -
  have p: "payload img' location' devInfo' body =
      payload img' location' devInfo' (JObj [(''ip'', JStr ''Unknown'')])" for img' location' devInfo'
    using assms(4) by (simp add: payload_def or_else_def)
  have ip1: "ip_lookup e = Some body"
    using assms(1-3) by (simp add: ip_lookup_def race_timeout_def)
  have ip2: "ip_lookup (e\<lparr>ip_fetch := (t, Rejected x)\<rparr>) = Some (JObj [(''ip'', JStr ''Unknown'')])"
    using assms(2) by (simp add: ip_lookup_def race_timeout_def)
  have c: "capture_image (e\<lparr>ip_fetch := (t, Rejected x)\<rparr>) = capture_image e"
    by (simp add: capture_image_def split: settled.splits sum.splits option.splits)
  have d: "deviceInfo (e\<lparr>ip_fetch := (t, Rejected x)\<rparr>) = deviceInfo e"
    by (simp add: deviceInfo_def)
  have s: "submit cfg pl (e\<lparr>ip_fetch := (t, Rejected x)\<rparr>) b = submit cfg pl e b" for b
    by (simp add: submit_def Let_def split: settled.splits sum.splits)
  have "attempt cfg pl e = attempt cfg pl (e\<lparr>ip_fetch := (t, Rejected x)\<rparr>)"
    by (simp add: attempt_def c d s ip1 ip2 p getLocationWithFallback_eq
          split: prod.splits settled.splits)
  then show ?thesis
    using p [of img location devInfo] by (simp add: payload_def or_else_def)
qed

theorem ip_missing_same_as_failure_witness:
  "ip_fetch scenario_no_ip =
     (200, Fulfilled \<lparr>resp_status = 429,
             resp_json = Fulfilled (JObj [(''error'', JStr ''rate limited'')])\<rparr>)
   \<and> \<not> truthy (opt_chain (JObj [(''error'', JStr ''rate limited'')]) ''ip'')
   \<and> attempt None page scenario_no_ip =
       attempt None page (scenario_no_ip\<lparr>ip_fetch := (200, Rejected (Exn ''Failed to fetch''))\<rparr>)
   \<and> posts (snd (attempt None page scenario_no_ip)) =
       [JObj [(''image'', JStr ''data:image/jpeg;base64,AAAA''),
              (''location'', JObj [(''latitude'', JNum 48), (''longitude'', JNum 2),
                                   (''accuracy'', JNum 30)]),
              (''deviceInfo'', deviceInfo scenario_no_ip),
              (''ipAddress'', JStr ''Unknown'')]]"
proof -
  have h1: "ip_fetch scenario_no_ip =
     (200, Fulfilled \<lparr>resp_status = 429,
             resp_json = Fulfilled (JObj [(''error'', JStr ''rate limited'')])\<rparr>)"
    by (simp add: scenario_no_ip_def)
  have h2: "(200::nat) \<le> 5000" by simp
  have h3: "resp_json \<lparr>resp_status = 429,
             resp_json = Fulfilled (JObj [(''error'', JStr ''rate limited'')])\<rparr>
            = Fulfilled (JObj [(''error'', JStr ''rate limited'')])"
    by simp
  have h4: "\<not> truthy (opt_chain (JObj [(''error'', JStr ''rate limited'')]) ''ip'')"
    by simp
  have c: "capture_image scenario_no_ip =
     (Fulfilled ''data:image/jpeg;base64,AAAA'',
      [SetStatus ''Requesting camera access...'', GetUserMedia, SrcObject 1,
       SetStatus ''Capturing photo...'', TrackStop 1 0])"
    by (simp add: capture_image_def scenario_no_ip_def scenario_A_def race_timeout_def toDataURL_def)
  have g: "getLocationWithFallback (geolocation scenario_no_ip) =
      Fulfilled (JObj [(''latitude'', JNum 48), (''longitude'', JNum 2), (''accuracy'', JNum 30)])"
    by (simp add: getLocationWithFallback_eq scenario_no_ip_def scenario_A_def)
  have i: "ip_lookup scenario_no_ip = Some (JObj [(''error'', JStr ''rate limited'')])"
    by (simp add: ip_lookup_def h1 race_timeout_def)
  have sent: "posts (snd (attempt None page scenario_no_ip)) =
       [payload ''data:image/jpeg;base64,AAAA''
          (JObj [(''latitude'', JNum 48), (''longitude'', JNum 2), (''accuracy'', JNum 30)])
          (deviceInfo scenario_no_ip) (JObj [(''error'', JStr ''rate limited'')])]"
    by (simp add: attempt_after_capture [OF c g i] posts_append posts_submit)
  show ?thesis
    using ip_missing_same_as_failure [OF h1 h2 h3 h4,
        of "''data:image/jpeg;base64,AAAA''"
           "JObj [(''latitude'', JNum 48), (''longitude'', JNum 2), (''accuracy'', JNum 30)]"
           "deviceInfo scenario_no_ip" None page "Exn ''Failed to fetch''"]
      h1 h4 sent
    by simp
qed

subsection \<open>Payload\<close>

lemma capture_image_Fulfilled:
  assumes "capture_image e = (Fulfilled img, evs)"
  shows "\<exists>stream. camera e = Fulfilled stream
           \<and> img = toDataURL (videoWidth e) (videoHeight e) (jpeg_data e)
           \<and> evs = [SetStatus ''Requesting camera access...'', GetUserMedia,
                     SrcObject (stream_id stream), SetStatus ''Capturing photo...'']
                    @ map (TrackStop (stream_id stream)) (tracks stream)"
  using assms
  by (auto simp: capture_image_def split: settled.splits sum.splits option.splits)

lemma toDataURL_nonempty: "toDataURL w h d \<noteq> []"
  by (simp add: toDataURL_def)

lemma truthy_or_else_Unknown: "truthy (or_else v (JStr ''Unknown''))"
  by (simp add: or_else_def)

lemma attempt_posts:
  "posts (snd (attempt cfg pl e)) = []
   \<or> (\<exists>img evs location ipData.
         capture_image e = (Fulfilled img, evs)
       \<and> getLocationWithFallback (geolocation e) = Fulfilled location
       \<and> ip_lookup e = Some ipData
       \<and> posts (snd (attempt cfg pl e)) = [payload img location (deviceInfo e) ipData])"
proof (cases "capture_image e")
  case (Pair r evs)
  have none: "posts evs = []"
    using posts_capture_image [of e] Pair by simp
  from getLocationWithFallback_cases [of "geolocation e"]
  consider (absent) "getLocationWithFallback (geolocation e) = Rejected geolocation_undefined"
    | (present) location where "getLocationWithFallback (geolocation e) = Fulfilled location"
    by blast
  then show ?thesis
  proof cases
    case absent
    then show ?thesis
      using Pair absent none by (cases r) (simp_all add: attempt_def posts_append)
  next
    case present
    note loc = present
    show ?thesis
    proof (cases r)
    case (Fulfilled img)
    show ?thesis
    proof (cases "ip_lookup e")
      case None
      then show ?thesis
        using Pair Fulfilled loc none by (simp add: attempt_def posts_append)
    next
      case (Some ipData)
      have c: "capture_image e = (Fulfilled img, evs)"
        using Pair Fulfilled by simp
      have "posts (snd (attempt cfg pl e)) = [payload img location (deviceInfo e) ipData]"
        using none by (simp add: attempt_after_capture [OF c loc Some] posts_append posts_submit)
      then show ?thesis
        using c loc Some by blast
    qed
  next
    case (Rejected x)
    then show ?thesis using Pair none by (simp add: attempt_def)
  next
    case Pending
    then show ?thesis using Pair none by (simp add: attempt_def)
    qed
  qed
qed

text \<open>
  C5. Every payload that an attempt posts is an object with exactly the four properties
  \<^verbatim>\<open>image\<close>, \<^verbatim>\<open>location\<close>, \<^verbatim>\<open>deviceInfo\<close> and \<^verbatim>\<open>ipAddress\<close>, in this order:
  the image is a non-empty string, the location an object with numeric latitude and
  longitude, the device information the object of the four strings, and the address a
  truthy value, so neither \<^verbatim>\<open>undefined\<close> nor \<^verbatim>\<open>null\<close> nor the empty string. It is
  the only payload of the attempt: the object assembled is the object sent.
\<close>

theorem payload_complete:
  assumes "body \<in> set (posts (snd (attempt cfg pl e)))"
  shows "\<exists>img lat lon rest ipAddress.
           body = JObj [(''image'', JStr img),
                        (''location'', JObj ((''latitude'', JNum lat) # (''longitude'', JNum lon) # rest)),
                        (''deviceInfo'',
                           JObj [(''userAgent'', JStr (userAgent e)), (''platform'', JStr (platform e)),
                                 (''language'', JStr (language e)), (''timestamp'', JStr (timestamp e))]),
                        (''ipAddress'', ipAddress)]
         \<and> img \<noteq> []
         \<and> truthy ipAddress
         \<and> ipAddress \<noteq> JUndef \<and> ipAddress \<noteq> JNull \<and> ipAddress \<noteq> JStr []
         \<and> posts (snd (attempt cfg pl e)) = [body]"
proof -
  from attempt_posts [of cfg pl e] assms
  obtain img evs location ipData where
    c: "capture_image e = (Fulfilled img, evs)" and
    loc: "getLocationWithFallback (geolocation e) = Fulfilled location" and
    sent: "posts (snd (attempt cfg pl e)) = [payload img location (deviceInfo e) ipData]"
    by auto
  have b: "body = payload img location (deviceInfo e) ipData"
    using assms sent by simp
  have img: "img \<noteq> []"
    using capture_image_Fulfilled [OF c] toDataURL_nonempty by auto
  obtain lat lon rest where
    shape: "location = JObj ((''latitude'', JNum lat) # (''longitude'', JNum lon) # rest)"
    using location_shape [OF loc] by blast
  let ?ip = "or_else (opt_chain ipData ''ip'') (JStr ''Unknown'')"
  have t: "truthy ?ip"
    by (rule truthy_or_else_Unknown)
  have n: "?ip \<noteq> JUndef \<and> ?ip \<noteq> JNull \<and> ?ip \<noteq> JStr []"
    using t by auto
  show ?thesis
    using b img shape t n sent by (simp add: payload_def deviceInfo_def)
qed

theorem payload_complete_witness:
  "JObj [(''image'', JStr ''data:image/jpeg;base64,AAAA''),
         (''location'', JObj [(''latitude'', JNum 0), (''longitude'', JNum 0),
                              (''error'', JStr ''Location error: User denied Geolocation'')]),
         (''deviceInfo'',
            JObj [(''userAgent'', JStr ''UA''), (''platform'', JStr ''Linux''),
                  (''language'', JStr ''en''), (''timestamp'', JStr ''2024-01-01T00:00:00.000Z'')]),
         (''ipAddress'', JStr ''203.0.113.7'')]
     \<in> set (posts (snd (attempt None page scenario_B)))
   \<and> posts (snd (attempt None page scenario_B)) =
     [JObj [(''image'', JStr ''data:image/jpeg;base64,AAAA''),
            (''location'', JObj [(''latitude'', JNum 0), (''longitude'', JNum 0),
                                 (''error'', JStr ''Location error: User denied Geolocation'')]),
            (''deviceInfo'',
               JObj [(''userAgent'', JStr ''UA''), (''platform'', JStr ''Linux''),
                     (''language'', JStr ''en''), (''timestamp'', JStr ''2024-01-01T00:00:00.000Z'')]),
            (''ipAddress'', JStr ''203.0.113.7'')]]"
proof -
  have c: "capture_image scenario_B =
     (Fulfilled ''data:image/jpeg;base64,AAAA'',
      [SetStatus ''Requesting camera access...'', GetUserMedia, SrcObject 1,
       SetStatus ''Capturing photo...'', TrackStop 1 0])"
    by (simp add: capture_image_def scenario_B_def scenario_A_def race_timeout_def toDataURL_def)
  have i: "ip_lookup scenario_B = Some (JObj [(''ip'', JStr ''203.0.113.7'')])"
    by (simp add: ip_lookup_def scenario_B_def scenario_A_def race_timeout_def)
  have g: "getLocationWithFallback (geolocation scenario_B) =
      Fulfilled (JObj [(''latitude'', JNum 0), (''longitude'', JNum 0),
                  (''error'', JStr ''Location error: User denied Geolocation'')])"
    by (simp add: getLocationWithFallback_eq scenario_B_def scenario_A_def)
  have sent: "posts (snd (attempt None page scenario_B)) =
     [JObj [(''image'', JStr ''data:image/jpeg;base64,AAAA''),
            (''location'', JObj [(''latitude'', JNum 0), (''longitude'', JNum 0),
                                 (''error'', JStr ''Location error: User denied Geolocation'')]),
            (''deviceInfo'',
               JObj [(''userAgent'', JStr ''UA''), (''platform'', JStr ''Linux''),
                     (''language'', JStr ''en''), (''timestamp'', JStr ''2024-01-01T00:00:00.000Z'')]),
            (''ipAddress'', JStr ''203.0.113.7'')]]"
  proof -
    have "posts (snd (attempt None page scenario_B)) =
       [payload ''data:image/jpeg;base64,AAAA''
          (JObj [(''latitude'', JNum 0), (''longitude'', JNum 0),
                 (''error'', JStr ''Location error: User denied Geolocation'')])
          (deviceInfo scenario_B) (JObj [(''ip'', JStr ''203.0.113.7'')])]"
      by (simp add: attempt_after_capture [OF c g i] posts_append posts_submit)
    then show ?thesis
      by (simp add: payload_def deviceInfo_def or_else_def scenario_B_def scenario_A_def)
  qed
  have h: "JObj [(''image'', JStr ''data:image/jpeg;base64,AAAA''),
            (''location'', JObj [(''latitude'', JNum 0), (''longitude'', JNum 0),
                                 (''error'', JStr ''Location error: User denied Geolocation'')]),
            (''deviceInfo'',
               JObj [(''userAgent'', JStr ''UA''), (''platform'', JStr ''Linux''),
                     (''language'', JStr ''en''), (''timestamp'', JStr ''2024-01-01T00:00:00.000Z'')]),
            (''ipAddress'', JStr ''203.0.113.7'')]
          \<in> set (posts (snd (attempt None page scenario_B)))"
    by (simp add: sent)
  show ?thesis
    using payload_complete [OF h] h by simp
qed

subsection \<open>Submission\<close>





lemma captureData_Rejected:
  assumes "attempt cfg pl e = (Rejected x, evs)"
  shows "captureData rc cfg pl (e # es) =
           evs @ [SetStatus (''Error: '' @ message x)]
           @ (if rc < MAX_RETRIES
              then [SetRetryCount (rc + 1), SetTimeout 2000, SetStatus ''Retrying...'']
                   @ captureData rc cfg pl es
              else [SetStatus failed_status])"
  using assms by simp

lemma captureData_Fulfilled:
  assumes "attempt cfg pl e = (Fulfilled u, evs)"
  shows "captureData rc cfg pl (e # es) = evs"
  using assms by simp

lemma captureData_Pending:
  assumes "attempt cfg pl e = (Pending, evs)"
  shows "captureData rc cfg pl (e # es) = evs"
  using assms by simp



subsection \<open>Status sequence\<close>

lemma attempt_Fulfilled:
  assumes "fst (attempt cfg pl e) = Fulfilled ()"
  shows "\<exists>stream location ipData.
           camera e = Fulfilled stream
         \<and> snd (attempt cfg pl e) =
             [SetStatus ''Requesting camera access...'', GetUserMedia,
              SrcObject (stream_id stream), SetStatus ''Capturing photo...'']
             @ map (TrackStop (stream_id stream)) (tracks stream)
             @ [SetStatus ''Getting location...'', GetCurrentPosition,
                SetStatus ''Getting device info...'', FetchGet ip_url,
                SetStatus ''Saving data...'',
                Post (getApiUrl cfg pl @ ''/api/capture'')
                  [(''Content-Type'', ''application/json'')]
                  (payload (toDataURL (videoWidth e) (videoHeight e) (jpeg_data e))
                     location (deviceInfo e) ipData),
                SetStatus success_status]"
proof (cases "capture_image e")
  case (Pair r evs)
  from getLocationWithFallback_cases [of "geolocation e"]
  consider (absent) "getLocationWithFallback (geolocation e) = Rejected geolocation_undefined"
    | (present) location where "getLocationWithFallback (geolocation e) = Fulfilled location"
    by blast
  then show ?thesis
  proof cases
    case absent
    then show ?thesis
      using assms Pair absent by (cases r) (simp_all add: attempt_def)
  next
    case present
    note loc = present
    show ?thesis
    proof (cases r)
    case (Fulfilled img)
    then have c: "capture_image e = (Fulfilled img, evs)"
      using Pair by simp
    from capture_image_Fulfilled [OF c] obtain stream where
      cam: "camera e = Fulfilled stream" and
      img: "img = toDataURL (videoWidth e) (videoHeight e) (jpeg_data e)" and
      evs: "evs = [SetStatus ''Requesting camera access...'', GetUserMedia,
                   SrcObject (stream_id stream), SetStatus ''Capturing photo...'']
                  @ map (TrackStop (stream_id stream)) (tracks stream)"
      by blast
    show ?thesis
    proof (cases "ip_lookup e")
      case None
      then show ?thesis
        using assms c loc by (simp add: attempt_def)
    next
      case (Some ipData)
      let ?body = "payload img location (deviceInfo e) ipData"
      have att: "attempt cfg pl e =
          (fst (submit cfg pl e ?body),
           evs @ [SetStatus ''Getting location...'', GetCurrentPosition,
                  SetStatus ''Getting device info...'', FetchGet ip_url,
                  SetStatus ''Saving data...'']
               @ snd (submit cfg pl e ?body))"
        by (rule attempt_after_capture [OF c loc Some])
      have "fst (submit cfg pl e ?body) = Fulfilled ()"
        using assms by (simp add: att)
      then have "snd (submit cfg pl e ?body) =
          [Post (getApiUrl cfg pl @ ''/api/capture'') [(''Content-Type'', ''application/json'')] ?body,
           SetStatus success_status]"
        by (auto simp: submit_def Let_def split: sum.splits settled.splits if_splits)
      then have "camera e = Fulfilled stream
         \<and> snd (attempt cfg pl e) =
             [SetStatus ''Requesting camera access...'', GetUserMedia,
              SrcObject (stream_id stream), SetStatus ''Capturing photo...'']
             @ map (TrackStop (stream_id stream)) (tracks stream)
             @ [SetStatus ''Getting location...'', GetCurrentPosition,
                SetStatus ''Getting device info...'', FetchGet ip_url,
                SetStatus ''Saving data...'',
                Post (getApiUrl cfg pl @ ''/api/capture'')
                  [(''Content-Type'', ''application/json'')]
                  (payload (toDataURL (videoWidth e) (videoHeight e) (jpeg_data e))
                     location (deviceInfo e) ipData),
                SetStatus success_status]"
        using cam by (simp add: att evs img)
      then show ?thesis
        by blast
    qed
  next
    case (Rejected x)
    then show ?thesis using assms Pair by (simp add: attempt_def)
  next
    case Pending
    then show ?thesis using assms Pair by (simp add: attempt_def)
    qed
  qed
qed

text \<open>
  C7, as amended. The claim lists seven states for a successful attempt, with a state
  for the IP lookup between the device information and the saving. The code sets the
  status six times in a successful attempt: for the camera request, the capture, the
  location, the device information, the saving, and the success. The IP request is made
  under the status of the device information; no status of its own is set for it.
\<close>

theorem success_statuses:
  assumes "fst (attempt cfg pl e) = Fulfilled ()"
  shows "statuses (snd (attempt cfg pl e)) =
           [''Requesting camera access...'', ''Capturing photo...'', ''Getting location...'',
            ''Getting device info...'', ''Saving data...'', success_status]
       \<and> (\<exists>pre post. snd (attempt cfg pl e) =
             pre @ [SetStatus ''Getting device info...'', FetchGet ip_url,
                    SetStatus ''Saving data...''] @ post)
       \<and> mount cfg pl (e # es) = snd (attempt cfg pl e)"
proof -
  from attempt_Fulfilled [OF assms] obtain stream location ipData where
    cam: "camera e = Fulfilled stream" and
    evs: "snd (attempt cfg pl e) =
             [SetStatus ''Requesting camera access...'', GetUserMedia,
              SrcObject (stream_id stream), SetStatus ''Capturing photo...'']
             @ map (TrackStop (stream_id stream)) (tracks stream)
             @ [SetStatus ''Getting location...'', GetCurrentPosition,
                SetStatus ''Getting device info...'', FetchGet ip_url,
                SetStatus ''Saving data...'',
                Post (getApiUrl cfg pl @ ''/api/capture'')
                  [(''Content-Type'', ''application/json'')]
                  (payload (toDataURL (videoWidth e) (videoHeight e) (jpeg_data e))
                     location (deviceInfo e) ipData),
                SetStatus success_status]"
    by (elim exE conjE) (rule that)
  have s: "statuses (snd (attempt cfg pl e)) =
           [''Requesting camera access...'', ''Capturing photo...'', ''Getting location...'',
            ''Getting device info...'', ''Saving data...'', success_status]"
    by (simp add: evs statuses_append statuses_TrackStop)
  have "snd (attempt cfg pl e) =
      ([SetStatus ''Requesting camera access...'', GetUserMedia,
        SrcObject (stream_id stream), SetStatus ''Capturing photo...'']
       @ map (TrackStop (stream_id stream)) (tracks stream)
       @ [SetStatus ''Getting location...'', GetCurrentPosition])
      @ [SetStatus ''Getting device info...'', FetchGet ip_url, SetStatus ''Saving data...'']
      @ [Post (getApiUrl cfg pl @ ''/api/capture'')
                  [(''Content-Type'', ''application/json'')]
                  (payload (toDataURL (videoWidth e) (videoHeight e) (jpeg_data e))
                     location (deviceInfo e) ipData),
         SetStatus success_status]"
    by (simp add: evs)
  then have m: "\<exists>pre post. snd (attempt cfg pl e) =
             pre @ [SetStatus ''Getting device info...'', FetchGet ip_url,
                    SetStatus ''Saving data...''] @ post"
    by blast
  have "attempt cfg pl e = (Fulfilled (), snd (attempt cfg pl e))"
    using assms by (metis prod.collapse)
  then have "mount cfg pl (e # es) = snd (attempt cfg pl e)"
    unfolding mount_def by (rule captureData_Fulfilled)
  then show ?thesis
    using s m by simp
qed

theorem success_statuses_witness:
  "fst (attempt None page scenario_A) = Fulfilled ()
   \<and> statuses (mount None page [scenario_A]) =
       [''Requesting camera access...'', ''Capturing photo...'', ''Getting location...'',
        ''Getting device info...'', ''Saving data...'', success_status]"
proof -
  have h: "fst (attempt None page scenario_A) = Fulfilled ()"
    by (simp add: attempt_def capture_image_def race_timeout_def getLocationWithFallback_eq
          ip_lookup_def submit_def ok_def scenario_A_def)
  show ?thesis
    using success_statuses [OF h, of "[]"] h by simp
qed

text \<open>
  In scenario A the attempt succeeds and its statuses are the six above: there is
  no value that stands between the fourth and the fifth.
\<close>

theorem no_FetchingIP_status_counterexample:
  "fst (attempt None page scenario_A) = Fulfilled ()
   \<and> statuses (snd (attempt None page scenario_A)) =
       [''Requesting camera access...'', ''Capturing photo...'', ''Getting location...'',
        ''Getting device info...'', ''Saving data...'', success_status]
   \<and> \<not> (\<exists>fetching_ip.
          statuses (snd (attempt None page scenario_A)) =
            [''Requesting camera access...'', ''Capturing photo...'', ''Getting location...'',
             ''Getting device info...'', fetching_ip, ''Saving data...'', success_status])"
  by (simp add: attempt_def capture_image_def race_timeout_def getLocationWithFallback_eq
        ip_lookup_def submit_def ok_def scenario_A_def)

subsection \<open>Single resolution of the location promise\<close>

lemma geo_step_keeps_value:
  assumes "resolved p = Some v"
  shows "resolved (geo_step ev p) = Some v"
  using assms by (cases ev) (simp_all add: resolve_def clearTimeout_def)

lemma foldl_geo_step_keeps_value:
  assumes "resolved p = Some v"
  shows "resolved (foldl (\<lambda>p ev. geo_step ev p) p evs) = Some v"
  using assms
proof (induction evs arbitrary: p)
  case Nil
  then show ?case by simp
next
  case (Cons ev evs)
  have "resolved (geo_step ev p) = Some v"
    using Cons.prems by (rule geo_step_keeps_value)
  then show ?case
    using Cons.IH by simp
qed

lemma first_event_resolves:
  "\<exists>v. resolved (geo_step ev executor_done) = Some v"
  by (cases ev) (simp_all add: executor_done_def resolve_def clearTimeout_def)

text \<open>
  C8. Whatever callbacks run after the executor, and in whatever order, the promise has
  the value that the first of them gives it, and has a value as soon as one has run.
  When the query calls back first, the timer is cleared: the deadline passing afterwards
  changes nothing and \<^verbatim>\<open>resolve\<close> has been called once. When the deadline passes
  first, the value is the timeout object whatever callback comes later. For every
  behaviour of the geolocation query the promise is resolved.
\<close>

theorem location_resolved_once:
  "resolved (geo_run (ev # evs)) = resolved (geo_run [ev])
   \<and> (\<exists>v. resolved (geo_run [ev]) = Some v)
   \<and> geo_run [OnPosition lat lon acc, DeadlinePasses] = geo_run [OnPosition lat lon acc]
   \<and> geo_run [OnPositionError msg, DeadlinePasses] = geo_run [OnPositionError msg]
   \<and> timer_armed (geo_run [OnPosition lat lon acc]) = False
   \<and> timer_armed (geo_run [OnPositionError msg]) = False
   \<and> resolve_calls (geo_run [OnPosition lat lon acc, DeadlinePasses]) = 1
   \<and> resolve_calls (geo_run [OnPositionError msg, DeadlinePasses]) = 1
   \<and> resolved (geo_run (DeadlinePasses # evs)) =
       Some (JObj [(''latitude'', JNum 0), (''longitude'', JNum 0),
                   (''error'', JStr ''Location timeout - using default'')])
   \<and> resolved (geo_run (OnPosition lat lon acc # evs)) =
       Some (JObj [(''latitude'', JNum lat), (''longitude'', JNum lon),
                   (''accuracy'', JNum acc)])
   \<and> resolved (geo_run (OnPositionError msg # evs)) =
       Some (JObj [(''latitude'', JNum 0), (''longitude'', JNum 0),
                   (''error'', JStr (''Location error: '' @ msg))])
   \<and> (\<exists>v. getLocationWithFallback (Some g) = Fulfilled v)"
proof -
  obtain v where v: "resolved (geo_step ev executor_done) = Some v"
    using first_event_resolves by blast
  have a: "resolved (geo_run (ev # evs)) = resolved (geo_run [ev])"
    using foldl_geo_step_keeps_value [OF v, of evs] v by (simp add: geo_run_def)
  have b: "\<exists>v. resolved (geo_run [ev]) = Some v"
    using v by (simp add: geo_run_def)
  have c: "geo_run [OnPosition lat lon acc, DeadlinePasses] = geo_run [OnPosition lat lon acc]"
    "geo_run [OnPositionError msg, DeadlinePasses] = geo_run [OnPositionError msg]"
    "timer_armed (geo_run [OnPosition lat lon acc]) = False"
    "timer_armed (geo_run [OnPositionError msg]) = False"
    "resolve_calls (geo_run [OnPosition lat lon acc, DeadlinePasses]) = 1"
    "resolve_calls (geo_run [OnPositionError msg, DeadlinePasses]) = 1"
    by (simp_all add: geo_run_def executor_done_def resolve_def clearTimeout_def)
  have d: "resolved (geo_run (DeadlinePasses # evs)) =
       Some (JObj [(''latitude'', JNum 0), (''longitude'', JNum 0),
                   (''error'', JStr ''Location timeout - using default'')])"
  proof -
    have "resolved (geo_step DeadlinePasses executor_done) =
       Some (JObj [(''latitude'', JNum 0), (''longitude'', JNum 0),
                   (''error'', JStr ''Location timeout - using default'')])"
      by (simp add: executor_done_def resolve_def)
    from foldl_geo_step_keeps_value [OF this, of evs] show ?thesis
      by (simp add: geo_run_def)
  qed
  have e: "resolved (geo_run (OnPosition lat lon acc # evs)) =
       Some (JObj [(''latitude'', JNum lat), (''longitude'', JNum lon),
                   (''accuracy'', JNum acc)])"
  proof -
    have "resolved (geo_step (OnPosition lat lon acc) executor_done) =
       Some (JObj [(''latitude'', JNum lat), (''longitude'', JNum lon),
                   (''accuracy'', JNum acc)])"
      by (simp add: executor_done_def resolve_def clearTimeout_def)
    from foldl_geo_step_keeps_value [OF this, of evs] show ?thesis
      by (simp add: geo_run_def)
  qed
  have f: "resolved (geo_run (OnPositionError msg # evs)) =
       Some (JObj [(''latitude'', JNum 0), (''longitude'', JNum 0),
                   (''error'', JStr (''Location error: '' @ msg))])"
  proof -
    have "resolved (geo_step (OnPositionError msg) executor_done) =
       Some (JObj [(''latitude'', JNum 0), (''longitude'', JNum 0),
                   (''error'', JStr (''Location error: '' @ msg))])"
      by (simp add: executor_done_def resolve_def clearTimeout_def)
    from foldl_geo_step_keeps_value [OF this, of evs] show ?thesis
      by (simp add: geo_run_def)
  qed
  have g: "\<exists>v. getLocationWithFallback (Some g) = Fulfilled v"
    by (simp add: getLocationWithFallback_eq)
  show ?thesis
    using a b c d e f g by simp
qed

subsection \<open>Camera stream\<close>

lemma camera_requests_append:
  "camera_requests (xs @ ys) = camera_requests xs + camera_requests ys"
  by (induction xs rule: camera_requests.induct) simp_all

lemma attached_streams_append:
  "attached_streams (xs @ ys) = attached_streams xs @ attached_streams ys"
  by (induction xs rule: attached_streams.induct) simp_all

lemma stopped_tracks_append:
  "stopped_tracks (xs @ ys) = stopped_tracks xs @ stopped_tracks ys"
  by (induction xs rule: stopped_tracks.induct) simp_all

lemma camera_requests_TrackStop: "camera_requests (map (TrackStop sid) ts) = 0"
  by (induction ts) simp_all

lemma attached_streams_TrackStop: "attached_streams (map (TrackStop sid) ts) = []"
  by (induction ts) simp_all

lemma stopped_tracks_TrackStop: "stopped_tracks (map (TrackStop sid) ts) = map (Pair sid) ts"
  by (induction ts) simp_all

text \<open>After the capture, an attempt makes no camera call.\<close>

lemma attempt_after_image:
  "\<exists>rest. snd (attempt cfg pl e) = snd (capture_image e) @ rest
        \<and> camera_requests rest = 0 \<and> attached_streams rest = [] \<and> stopped_tracks rest = []
        \<and> (\<forall>img. fst (capture_image e) = Fulfilled img \<longrightarrow>
              (\<exists>more. rest = SetStatus ''Getting location...'' # GetCurrentPosition # more))
        \<and> (\<forall>x. fst (capture_image e) = Rejected x \<longrightarrow> fst (attempt cfg pl e) = Rejected x)"
proof (cases "capture_image e")
  case (Pair r evs)
  from getLocationWithFallback_cases [of "geolocation e"]
  consider (absent) "getLocationWithFallback (geolocation e) = Rejected geolocation_undefined"
    | (present) location where "getLocationWithFallback (geolocation e) = Fulfilled location"
    by blast
  then show ?thesis
  proof cases
    case absent
    then show ?thesis
      using Pair absent by (cases r) (simp_all add: attempt_def)
  next
    case present
    note loc = present
    show ?thesis
    proof (cases r)
    case (Fulfilled img)
    then have c: "capture_image e = (Fulfilled img, evs)"
      using Pair by simp
    show ?thesis
    proof (cases "ip_lookup e")
      case None
      then show ?thesis
        using c loc by (simp add: attempt_def)
    next
      case (Some ipData)
      obtain r' sent where s: "submit cfg pl e (payload img location (deviceInfo e) ipData) = (r', sent)"
        by (cases "submit cfg pl e (payload img location (deviceInfo e) ipData)")
      have "camera_requests sent = 0 \<and> attached_streams sent = [] \<and> stopped_tracks sent = []"
        using s by (auto simp: submit_def Let_def split: sum.splits settled.splits if_splits)
      then show ?thesis
        using c s by (simp add: attempt_after_capture [OF c loc Some]
            camera_requests_append attached_streams_append stopped_tracks_append)
    qed
  next
    case (Rejected x)
    then show ?thesis using Pair by (simp add: attempt_def)
  next
    case Pending
    then show ?thesis using Pair by (simp add: attempt_def)
    qed
  qed
qed

lemma capture_image_cameras:
  "camera_requests (snd (capture_image e)) = 1"
  by (simp add: capture_image_def camera_requests_append camera_requests_TrackStop
        split: settled.splits sum.splits option.splits)

lemma capture_image_attached:
  assumes "camera e = Fulfilled stream"
  shows "attached_streams (snd (capture_image e)) = [stream_id stream]"
  using assms
  by (simp add: capture_image_def attached_streams_append attached_streams_TrackStop
        split: settled.splits sum.splits option.splits)

lemma capture_image_stopped:
  assumes "camera e = Fulfilled stream"
  shows "set (stopped_tracks (snd (capture_image e))) \<subseteq> {stream_id stream} \<times> set (tracks stream)"
  using assms
  by (auto simp: capture_image_def stopped_tracks_append stopped_tracks_TrackStop
        split: settled.splits sum.splits option.splits)

lemma capture_image_happy:
  assumes "camera e = Fulfilled stream" and "loadedmetadata e = Some t" and "t \<le> 5000"
    and "canvas_failure e = None"
  shows "capture_image e =
           (Fulfilled (toDataURL (videoWidth e) (videoHeight e) (jpeg_data e)),
            [SetStatus ''Requesting camera access...'', GetUserMedia,
             SrcObject (stream_id stream), SetStatus ''Capturing photo...'']
            @ map (TrackStop (stream_id stream)) (tracks stream))"
  using assms by (simp add: capture_image_def race_timeout_def)

lemma capture_image_thrown:
  assumes "camera e = Fulfilled stream"
    and "loadedmetadata e = None \<or> (\<exists>t. loadedmetadata e = Some t \<and> 5000 < t)
         \<or> (\<exists>x. canvas_failure e = Some x)"
  shows "\<exists>x. fst (capture_image e) = Rejected x"
    and "stopped_tracks (snd (capture_image e)) = []"
    and "loadedmetadata e = None \<or> (\<exists>t. loadedmetadata e = Some t \<and> 5000 < t)
         \<Longrightarrow> fst (capture_image e) = Rejected (Exn ''Video load timeout'')"
  using assms
  by (auto simp: capture_image_def race_timeout_def split: option.splits)

lemma captureData_single:
  "\<exists>tail. captureData rc cfg pl [e] = snd (attempt cfg pl e) @ tail
        \<and> camera_requests tail = 0 \<and> attached_streams tail = [] \<and> stopped_tracks tail = []"
proof (cases "attempt cfg pl e")
  case (Pair r evs)
  then show ?thesis
    by (cases r) simp_all
qed

lemma attempt_cameras:
  "camera_requests (snd (attempt cfg pl e)) = 1"
  using attempt_after_image [of cfg pl e] capture_image_cameras [of e]
  by (auto simp: camera_requests_append)

lemma attempt_attached:
  assumes "camera e = Fulfilled stream"
  shows "attached_streams (snd (attempt cfg pl e)) = [stream_id stream]"
  using attempt_after_image [of cfg pl e] capture_image_attached [OF assms]
  by (auto simp: attached_streams_append)

lemma attempt_stopped:
  "stopped_tracks (snd (attempt cfg pl e)) = stopped_tracks (snd (capture_image e))"
  using attempt_after_image [of cfg pl e]
  by (auto simp: stopped_tracks_append)

text \<open>
  C9. With a camera stream acquired: when the metadata arrives within the 5000 ms and
  the canvas statements do not throw, the attempt stops every track of the stream, each
  once, right after the capture and before it sets the location status and starts the
  geolocation query. When the metadata does not arrive in time (the attempt then fails
  with \<^verbatim>\<open>Video load timeout\<close>) or a canvas statement throws, the attempt fails and
  stops no track; the retry that follows calls \<^verbatim>\<open>getUserMedia\<close> again and attaches
  the stream of that second call, and the only tracks stopped are tracks of that second
  stream.
\<close>

theorem camera_stream_lifecycle:
  assumes "camera e = Fulfilled stream"
  shows "(\<forall>t. loadedmetadata e = Some t \<and> t \<le> 5000 \<and> canvas_failure e = None \<longrightarrow>
            (\<exists>more. snd (attempt cfg pl e) =
               [SetStatus ''Requesting camera access...'', GetUserMedia,
                SrcObject (stream_id stream), SetStatus ''Capturing photo...'']
               @ map (TrackStop (stream_id stream)) (tracks stream)
               @ SetStatus ''Getting location...'' # GetCurrentPosition # more)
          \<and> stopped_tracks (snd (attempt cfg pl e)) = map (Pair (stream_id stream)) (tracks stream))
       \<and> (loadedmetadata e = None \<or> (\<exists>t. loadedmetadata e = Some t \<and> 5000 < t)
            \<or> (\<exists>x. canvas_failure e = Some x) \<longrightarrow>
            (\<exists>x. fst (attempt cfg pl e) = Rejected x)
          \<and> stopped_tracks (snd (attempt cfg pl e)) = []
          \<and> (\<forall>e2 stream2. camera e2 = Fulfilled stream2 \<longrightarrow>
                camera_requests (mount cfg pl [e, e2]) = 2
              \<and> attached_streams (mount cfg pl [e, e2]) = [stream_id stream, stream_id stream2]
              \<and> set (stopped_tracks (mount cfg pl [e, e2]))
                  \<subseteq> {stream_id stream2} \<times> set (tracks stream2)))
       \<and> (loadedmetadata e = None \<or> (\<exists>t. loadedmetadata e = Some t \<and> 5000 < t) \<longrightarrow>
            fst (attempt cfg pl e) = Rejected (Exn ''Video load timeout''))"
proof -
  have happy: "(\<exists>more. snd (attempt cfg pl e) =
               [SetStatus ''Requesting camera access...'', GetUserMedia,
                SrcObject (stream_id stream), SetStatus ''Capturing photo...'']
               @ map (TrackStop (stream_id stream)) (tracks stream)
               @ SetStatus ''Getting location...'' # GetCurrentPosition # more)
          \<and> stopped_tracks (snd (attempt cfg pl e)) = map (Pair (stream_id stream)) (tracks stream)"
    if "loadedmetadata e = Some t" "t \<le> 5000" "canvas_failure e = None" for t
  proof -
    have c: "capture_image e =
           (Fulfilled (toDataURL (videoWidth e) (videoHeight e) (jpeg_data e)),
            [SetStatus ''Requesting camera access...'', GetUserMedia,
             SrcObject (stream_id stream), SetStatus ''Capturing photo...'']
            @ map (TrackStop (stream_id stream)) (tracks stream))"
      by (rule capture_image_happy [OF assms that])
    from attempt_after_image [of cfg pl e] c obtain more where
      "snd (attempt cfg pl e) =
         ([SetStatus ''Requesting camera access...'', GetUserMedia,
           SrcObject (stream_id stream), SetStatus ''Capturing photo...'']
          @ map (TrackStop (stream_id stream)) (tracks stream))
         @ SetStatus ''Getting location...'' # GetCurrentPosition # more"
      by auto
    then have 1: "\<exists>more. snd (attempt cfg pl e) =
               [SetStatus ''Requesting camera access...'', GetUserMedia,
                SrcObject (stream_id stream), SetStatus ''Capturing photo...'']
               @ map (TrackStop (stream_id stream)) (tracks stream)
               @ SetStatus ''Getting location...'' # GetCurrentPosition # more"
      by simp
    have 2: "stopped_tracks (snd (attempt cfg pl e)) = map (Pair (stream_id stream)) (tracks stream)"
      by (simp add: attempt_stopped c stopped_tracks_append stopped_tracks_TrackStop)
    show ?thesis
      using 1 2 by simp
  qed
  have thrown: "(\<exists>x. fst (attempt cfg pl e) = Rejected x)
          \<and> stopped_tracks (snd (attempt cfg pl e)) = []
          \<and> (\<forall>e2 stream2. camera e2 = Fulfilled stream2 \<longrightarrow>
                camera_requests (mount cfg pl [e, e2]) = 2
              \<and> attached_streams (mount cfg pl [e, e2]) = [stream_id stream, stream_id stream2]
              \<and> set (stopped_tracks (mount cfg pl [e, e2]))
                  \<subseteq> {stream_id stream2} \<times> set (tracks stream2))"
    if h: "loadedmetadata e = None \<or> (\<exists>t. loadedmetadata e = Some t \<and> 5000 < t)
            \<or> (\<exists>x. canvas_failure e = Some x)"
  proof -
    obtain x where x: "fst (capture_image e) = Rejected x"
      using capture_image_thrown(1) [OF assms h] by blast
    have fx: "fst (attempt cfg pl e) = Rejected x"
      using attempt_after_image [of cfg pl e] x by auto
    have st: "stopped_tracks (snd (attempt cfg pl e)) = []"
      using capture_image_thrown(2) [OF assms h] by (simp add: attempt_stopped)
    have retry: "camera_requests (mount cfg pl [e, e2]) = 2
              \<and> attached_streams (mount cfg pl [e, e2]) = [stream_id stream, stream_id stream2]
              \<and> set (stopped_tracks (mount cfg pl [e, e2]))
                  \<subseteq> {stream_id stream2} \<times> set (tracks stream2)"
      if c2: "camera e2 = Fulfilled stream2" for e2 stream2
    proof -
      have att: "attempt cfg pl e = (Rejected x, snd (attempt cfg pl e))"
        using fx by (metis prod.collapse)
      obtain tail where tail: "captureData 0 cfg pl [e2] = snd (attempt cfg pl e2) @ tail"
        "camera_requests tail = 0" "attached_streams tail = []" "stopped_tracks tail = []"
        using captureData_single [of 0 cfg pl e2] by blast
      have m: "mount cfg pl [e, e2] =
          snd (attempt cfg pl e) @ [SetStatus (''Error: '' @ message x)]
          @ [SetRetryCount 1, SetTimeout 2000, SetStatus ''Retrying...'']
          @ snd (attempt cfg pl e2) @ tail"
        using captureData_Rejected [OF att, of 0 "[e2]"] tail(1)
        by (simp add: mount_def initial_state_def MAX_RETRIES_def)
      have s2: "set (stopped_tracks (snd (attempt cfg pl e2)))
                  \<subseteq> {stream_id stream2} \<times> set (tracks stream2)"
        using capture_image_stopped [OF c2] by (simp add: attempt_stopped)
      show ?thesis
        using s2 st tail(2-4)
        by (simp add: m camera_requests_append attached_streams_append stopped_tracks_append
              attempt_cameras attempt_attached [OF assms] attempt_attached [OF c2])
    qed
    show ?thesis
      using fx st retry by blast
  qed
  have timeout: "fst (attempt cfg pl e) = Rejected (Exn ''Video load timeout'')"
    if h: "loadedmetadata e = None \<or> (\<exists>t. loadedmetadata e = Some t \<and> 5000 < t)"
  proof -
    have "fst (capture_image e) = Rejected (Exn ''Video load timeout'')"
      using capture_image_thrown(3) [OF assms _ h] h by blast
    then show ?thesis
      using attempt_after_image [of cfg pl e] by auto
  qed
  show ?thesis
    using happy thrown timeout by blast
qed

theorem camera_stream_lifecycle_witness:
  "camera scenario_E = Fulfilled \<lparr>stream_id = 7, tracks = [0, 1]\<rparr>
   \<and> loadedmetadata scenario_E = None
   \<and> fst (attempt None page scenario_E) = Rejected (Exn ''Video load timeout'')
   \<and> stopped_tracks (snd (attempt None page scenario_E)) = []
   \<and> camera_requests (mount None page [scenario_E, scenario_A]) = 2
   \<and> attached_streams (mount None page [scenario_E, scenario_A]) = [7, 1]
   \<and> set (stopped_tracks (mount None page [scenario_E, scenario_A])) \<subseteq> {1} \<times> {0}
   \<and> camera scenario_A = Fulfilled \<lparr>stream_id = 1, tracks = [0]\<rparr>
   \<and> loadedmetadata scenario_A = Some 300
   \<and> canvas_failure scenario_A = None
   \<and> stopped_tracks (snd (attempt None page scenario_A)) = [(1, 0)]"
proof -
  have cE: "camera scenario_E = Fulfilled \<lparr>stream_id = 7, tracks = [0, 1]\<rparr>"
    by (simp add: scenario_E_def)
  have mE: "loadedmetadata scenario_E = None"
    by (simp add: scenario_E_def)
  have cA: "camera scenario_A = Fulfilled \<lparr>stream_id = 1, tracks = [0]\<rparr>"
    by (simp add: scenario_A_def)
  have mA: "loadedmetadata scenario_A = Some 300"
    by (simp add: scenario_A_def)
  have fA: "canvas_failure scenario_A = None"
    by (simp add: scenario_A_def)
  from camera_stream_lifecycle [OF cE, of None page] mE cA
  have E: "fst (attempt None page scenario_E) = Rejected (Exn ''Video load timeout'')
     \<and> stopped_tracks (snd (attempt None page scenario_E)) = []
     \<and> camera_requests (mount None page [scenario_E, scenario_A]) = 2
     \<and> attached_streams (mount None page [scenario_E, scenario_A]) = [7, 1]
     \<and> set (stopped_tracks (mount None page [scenario_E, scenario_A])) \<subseteq> {1} \<times> {0}"
    by fastforce
  from camera_stream_lifecycle [OF cA, of None page] mA fA
  have A: "stopped_tracks (snd (attempt None page scenario_A)) = [(1, 0)]"
    by simp
  show ?thesis
    using E A cE mE cA mA fA by simp
qed

subsection \<open>Retries\<close>

lemma retry_counts_append:
  "retry_counts (xs @ ys) = retry_counts xs @ retry_counts ys"
  by (induction xs rule: retry_counts.induct) simp_all

lemma retry_counts_TrackStop: "retry_counts (map (TrackStop sid) ts) = []"
  by (induction ts) simp_all

lemma capture_image_statuses:
  "set (statuses (snd (capture_image e))) \<subseteq> {''Requesting camera access...'', ''Capturing photo...''}"
  by (auto simp: capture_image_def statuses_append statuses_TrackStop
        split: settled.splits sum.splits option.splits)

lemma attempt_tail:
  "\<exists>rest. snd (attempt cfg pl e) = snd (capture_image e) @ rest
        \<and> retry_counts rest = []
        \<and> set (statuses rest) \<subseteq> {''Getting location...'', ''Getting device info...'',
                                   ''Saving data...'', success_status}"
proof (cases "capture_image e")
  case (Pair r evs)
  from getLocationWithFallback_cases [of "geolocation e"]
  consider (absent) "getLocationWithFallback (geolocation e) = Rejected geolocation_undefined"
    | (present) location where "getLocationWithFallback (geolocation e) = Fulfilled location"
    by blast
  then show ?thesis
  proof cases
    case absent
    then show ?thesis
      using Pair absent by (cases r) (simp_all add: attempt_def)
  next
    case present
    note loc = present
    show ?thesis
    proof (cases r)
    case (Fulfilled img)
    then have c: "capture_image e = (Fulfilled img, evs)"
      using Pair by simp
    show ?thesis
    proof (cases "ip_lookup e")
      case None
      then show ?thesis
        using c loc by (simp add: attempt_def)
    next
      case (Some ipData)
      obtain r' sent where s: "submit cfg pl e (payload img location (deviceInfo e) ipData) = (r', sent)"
        by (cases "submit cfg pl e (payload img location (deviceInfo e) ipData)")
      have "retry_counts sent = [] \<and> set (statuses sent) \<subseteq> {success_status}"
        using s by (auto simp: submit_def Let_def split: sum.splits settled.splits if_splits)
      then show ?thesis
        using c s by (auto simp: attempt_after_capture [OF c loc Some]
            retry_counts_append statuses_append)
    qed
  next
    case (Rejected x)
    then show ?thesis using Pair by (simp add: attempt_def)
  next
    case Pending
    then show ?thesis using Pair by (simp add: attempt_def)
    qed
  qed
qed

lemma capture_image_retry_counts: "retry_counts (snd (capture_image e)) = []"
  by (simp add: capture_image_def retry_counts_append retry_counts_TrackStop
        split: settled.splits sum.splits option.splits)

lemma attempt_retry_counts: "retry_counts (snd (attempt cfg pl e)) = []"
  using attempt_tail [of cfg pl e] capture_image_retry_counts [of e]
  by (auto simp: retry_counts_append)

lemma attempt_never_failed_status:
  "failed_status \<notin> set (statuses (snd (attempt cfg pl e)))"
proof -
  from attempt_tail [of cfg pl e] obtain rest where
    r: "snd (attempt cfg pl e) = snd (capture_image e) @ rest"
       "set (statuses rest) \<subseteq> {''Getting location...'', ''Getting device info...'',
                                   ''Saving data...'', success_status}"
    by blast
  have "failed_status \<notin> {''Requesting camera access...'', ''Capturing photo...''}"
    by (simp add: failed_status_def)
  moreover have "failed_status \<notin> {''Getting location...'', ''Getting device info...'',
                                   ''Saving data...'', success_status}"
    by (simp add: failed_status_def success_status_def)
  ultimately show ?thesis
    using r capture_image_statuses [of e] by (auto simp: statuses_append)
qed

text \<open>
  As long as every attempt fails, the function started by the mount effect goes on: it
  makes one attempt for every environment of the script, sets the retry counter to 1
  after each of them, and never sets the terminal status.
\<close>

lemma captureData_retries_without_end:
  assumes "rc < MAX_RETRIES"
    and "\<forall>e \<in> set script. \<exists>x. fst (attempt cfg pl e) = Rejected x"
  shows "camera_requests (captureData rc cfg pl script) = length script
       \<and> retry_counts (captureData rc cfg pl script) = replicate (length script) (rc + 1)
       \<and> failed_status \<notin> set (statuses (captureData rc cfg pl script))"
  using assms(2)
proof (induction script)
  case Nil
  then show ?case by simp
next
  case (Cons e script)
  obtain x where "fst (attempt cfg pl e) = Rejected x"
    using Cons.prems by auto
  then have att: "attempt cfg pl e = (Rejected x, snd (attempt cfg pl e))"
    by (metis prod.collapse)
  have IH: "camera_requests (captureData rc cfg pl script) = length script
       \<and> retry_counts (captureData rc cfg pl script) = replicate (length script) (rc + 1)
       \<and> failed_status \<notin> set (statuses (captureData rc cfg pl script))"
    using Cons by simp
  have e1: "''Error: '' @ message x \<noteq> failed_status"
    by (simp add: failed_status_def)
  have e2: "''Retrying...'' \<noteq> failed_status"
    by (simp add: failed_status_def)
  have c: "captureData rc cfg pl (e # script) =
      snd (attempt cfg pl e) @ [SetStatus (''Error: '' @ message x)]
      @ [SetRetryCount (rc + 1), SetTimeout 2000, SetStatus ''Retrying...'']
      @ captureData rc cfg pl script"
    using captureData_Rejected [OF att, of rc script] assms(1) by simp
  show ?case
    unfolding c
    using IH e1 e2 attempt_never_failed_status [of cfg pl e]
    by (simp add: camera_requests_append retry_counts_append statuses_append
          attempt_cameras attempt_retry_counts del: captureData.simps)
qed

text \<open>
  The terminal branch of the handler is taken by a function whose \<^verbatim>\<open>retryCount\<close> is
  \<^verbatim>\<open>MAX_RETRIES\<close>; the function that the mount effect starts is not one.
\<close>

lemma captureData_terminal_branch:
  assumes "attempt cfg pl e = (Rejected x, evs)"
  shows "captureData MAX_RETRIES cfg pl (e # es) =
           evs @ [SetStatus (''Error: '' @ message x), SetStatus failed_status]"
  using assms by simp

text \<open>
  C1. The claim: four attempts, then the terminal status. With a server that answers
  500 to every upload (scenario D of the specification), the component started by the
  mount effect makes a fifth attempt after the fourth has failed: five camera requests
  and five uploads are observed, the retry counter is set to 1 after each failure, the
  terminal status is never set, and after the fifth failure the state is a retry counter
  of 1 with the next attempt scheduled.
\<close>

theorem mount_fifth_attempt:
  "camera_requests (mount None page [scenario_D, scenario_D, scenario_D, scenario_D, scenario_D]) = 5
   \<and> length (posts (mount None page [scenario_D, scenario_D, scenario_D, scenario_D, scenario_D])) = 5
   \<and> retry_counts (mount None page [scenario_D, scenario_D, scenario_D, scenario_D, scenario_D])
       = [1, 1, 1, 1, 1]
   \<and> failed_status \<notin> set (statuses (mount None page
         [scenario_D, scenario_D, scenario_D, scenario_D, scenario_D]))
   \<and> state_after (mount None page [scenario_D, scenario_D, scenario_D, scenario_D, scenario_D])
       = \<lparr>status = ''Retrying...'', retryCount = 1\<rparr>"
proof -
  have cD: "capture_image scenario_D =
     (Fulfilled ''data:image/jpeg;base64,AAAA'',
      [SetStatus ''Requesting camera access...'', GetUserMedia, SrcObject 1,
       SetStatus ''Capturing photo...'', TrackStop 1 0])"
    by (simp add: capture_image_def scenario_D_def scenario_A_def race_timeout_def toDataURL_def)
  have gD: "getLocationWithFallback (geolocation scenario_D) =
      Fulfilled (JObj [(''latitude'', JNum 48), (''longitude'', JNum 2), (''accuracy'', JNum 30)])"
    by (simp add: getLocationWithFallback_eq scenario_D_def scenario_A_def)
  have iD: "ip_lookup scenario_D = Some (JObj [(''ip'', JStr ''203.0.113.7'')])"
    by (simp add: ip_lookup_def scenario_D_def scenario_A_def race_timeout_def)
  have n: "show_nat 500 = ''500''"
    by (simp add: show_nat.simps)
  have sD: "submit None page scenario_D body =
      (Rejected (Exn ''Server error: 500''),
       [Post ''https://example.org/api/capture'' [(''Content-Type'', ''application/json'')] body])" for body
    by (simp add: submit_def getApiUrl_def page_def race_timeout_def ok_def scenario_D_def n)
  have att: "attempt None page scenario_D =
      (Rejected (Exn ''Server error: 500''),
       [SetStatus ''Requesting camera access...'', GetUserMedia, SrcObject 1,
        SetStatus ''Capturing photo...'', TrackStop 1 0,
        SetStatus ''Getting location...'', GetCurrentPosition,
        SetStatus ''Getting device info...'', FetchGet ip_url,
        SetStatus ''Saving data...'',
        Post ''https://example.org/api/capture'' [(''Content-Type'', ''application/json'')]
          (payload ''data:image/jpeg;base64,AAAA''
             (JObj [(''latitude'', JNum 48), (''longitude'', JNum 2), (''accuracy'', JNum 30)])
             (deviceInfo scenario_D) (JObj [(''ip'', JStr ''203.0.113.7'')]))])"
    by (simp add: attempt_after_capture [OF cD gD iD] sD)
  show ?thesis
    by (simp add: mount_def initial_state_def MAX_RETRIES_def att state_after_def
          failed_status_def)
qed

end
